(* ===== verification/Prelude.thy ===== *)
theory Prelude
  imports Main
begin

text \<open>
  Shared material of the development: the collections of evaluation rules that the
  component theories fill, and the generic list and digit lemmas they share.
  Strings are \<open>char list\<close>; a \<open>char\<close> is a byte, so a JavaScript string is modelled by
  its UTF-8 encoding (exact for the ASCII text the client builds).
\<close>

named_theorems js_eval
  \<open>evaluation rules of the JavaScript value layer (conversions, object operations)\<close>
named_theorems api_eval
  \<open>evaluation rules of the effect layer and the client operations\<close>

type_synonym bytes = "char list"

section \<open>Digits in a radix\<close>

text \<open>
  The most significant digit first; zero is the single digit \<open>[0]\<close>. Used for decimal
  number printing and for the two hexadecimal digits of a percent escape.
\<close>

function digits_of :: "nat \<Rightarrow> nat \<Rightarrow> nat list" where
  "digits_of b n = (if b < 2 \<or> n < b then [n] else digits_of b (n div b) @ [n mod b])"
  by pat_completeness auto
termination
  by (relation "measure (\<lambda>(b, n). n)") auto

declare digits_of.simps [simp del]

definition val_of_digits :: "nat \<Rightarrow> nat list \<Rightarrow> nat" where
  "val_of_digits b ds = foldl (\<lambda>acc d. acc * b + d) 0 ds"

lemma val_of_digits_snoc [simp]:
  "val_of_digits b (ds @ [d]) = val_of_digits b ds * b + d"
  by (simp add: val_of_digits_def)

lemma val_of_digits_Nil [simp]: "val_of_digits b [] = 0"
  by (simp add: val_of_digits_def)

lemma foldl_digits_acc:
  "foldl (\<lambda>acc d. acc * b + d) (a::nat) ds = a * b ^ length ds + foldl (\<lambda>acc d. acc * b + d) 0 ds"
proof (induction ds arbitrary: a rule: rev_induct)
  case Nil
  then show ?case by simp
next
  case (snoc d ds)
  have "foldl (\<lambda>acc d. acc * b + d) a (ds @ [d]) = foldl (\<lambda>acc d. acc * b + d) a ds * b + d"
    by simp
  also have "\<dots> = (a * b ^ length ds + foldl (\<lambda>acc d. acc * b + d) 0 ds) * b + d"
    by (subst snoc.IH) (rule refl)
  finally show ?case by (simp add: algebra_simps)
qed

lemma val_of_digits_Cons:
  "val_of_digits b (d # ds) = d * b ^ length ds + val_of_digits b ds"
  unfolding val_of_digits_def by (simp, subst foldl_digits_acc) simp

lemma val_of_digits_append:
  "val_of_digits b (xs @ ys) = val_of_digits b xs * b ^ length ys + val_of_digits b ys"
  unfolding val_of_digits_def by (simp, subst foldl_digits_acc) simp

lemma digits_of_val [simp]:
  "2 \<le> b \<Longrightarrow> val_of_digits b (digits_of b n) = n"
proof (induction b n rule: digits_of.induct)
  case (1 b n)
  show ?case
  proof (cases "n < b")
    case True
    then show ?thesis by (simp add: digits_of.simps [of b n] val_of_digits_def)
  next
    case False
    with "1.prems" "1.IH" have "val_of_digits b (digits_of b (n div b)) = n div b"
      by simp
    with False "1.prems" show ?thesis
      by (simp add: digits_of.simps [of b n])
  qed
qed

lemma digits_of_less:
  "2 \<le> b \<Longrightarrow> d \<in> set (digits_of b n) \<Longrightarrow> d < b"
proof (induction b n rule: digits_of.induct)
  case (1 b n)
  show ?case
  proof (cases "n < b")
    case True
    with "1.prems" show ?thesis by (simp add: digits_of.simps [of b n])
  next
    case False
    with "1.prems" "1.IH" show ?thesis
      by (auto simp add: digits_of.simps [of b n])
  qed
qed

lemma digits_of_ne [simp]: "digits_of b n \<noteq> []"
  by (subst digits_of.simps) simp

lemma digits_of_hd:
  "2 \<le> b \<Longrightarrow> 0 < n \<Longrightarrow> hd (digits_of b n) \<noteq> 0"
proof (induction b n rule: digits_of.induct)
  case (1 b n)
  show ?case
  proof (cases "n < b")
    case True
    with "1.prems" show ?thesis by (simp add: digits_of.simps [of b n])
  next
    case False
    with "1.prems" have "0 < n div b" by (simp add: div_greater_zero_iff)
    with False "1.prems" "1.IH" show ?thesis
      by (simp add: digits_of.simps [of b n])
  qed
qed

lemma val_of_digits_pos:
  "ds \<noteq> [] \<Longrightarrow> hd ds \<noteq> 0 \<Longrightarrow> 0 < b \<Longrightarrow> 0 < val_of_digits b ds"
  by (cases ds) (simp_all add: val_of_digits_Cons)

lemma val_of_digits_less:
  "\<forall>d \<in> set ds. d < b \<Longrightarrow> val_of_digits b ds < b ^ length ds"
proof (induction ds rule: rev_induct)
  case Nil
  then show ?case by simp
next
  case (snoc d ds)
  then have "val_of_digits b ds + 1 \<le> b ^ length ds" and "d < b" by auto
  have "val_of_digits b ds * b + d < val_of_digits b ds * b + b"
    using \<open>d < b\<close> by simp
  also have "\<dots> = (val_of_digits b ds + 1) * b" by simp
  also have "\<dots> \<le> b ^ length ds * b"
    using \<open>val_of_digits b ds + 1 \<le> b ^ length ds\<close> by (rule mult_le_mono1)
  finally show ?case by (simp add: mult.commute)
qed

text \<open>Reading a digit list without leading zero and printing the value again gives it back.\<close>

lemma digits_of_val_inv:
  "2 \<le> b \<Longrightarrow> \<forall>d \<in> set ds. d < b \<Longrightarrow> ds \<noteq> [] \<Longrightarrow> (hd ds \<noteq> 0 \<or> ds = [0]) \<Longrightarrow>
   digits_of b (val_of_digits b ds) = ds"
proof (induction ds rule: rev_induct)
  case Nil
  then show ?case by simp
next
  case (snoc d ds)
  show ?case
  proof (cases "ds = []")
    case True
    with snoc.prems show ?thesis by (simp add: digits_of.simps [of b d] val_of_digits_def)
  next
    case False
    with snoc.prems have hd: "hd ds \<noteq> 0" by auto
    with False snoc.prems have pos: "0 < val_of_digits b ds"
      by (intro val_of_digits_pos) auto
    from snoc.prems have d: "d < b" by simp
    from pos have "b \<le> val_of_digits b ds * b" by simp
    then have big: "\<not> val_of_digits b ds * b + d < b" by linarith
    have "(val_of_digits b ds * b + d) div b = val_of_digits b ds"
      and "(val_of_digits b ds * b + d) mod b = d"
      using d by simp_all
    moreover have "digits_of b (val_of_digits b ds) = ds"
      using snoc.IH snoc.prems False hd by simp
    ultimately show ?thesis
      using snoc.prems big by (simp add: digits_of.simps [of b "val_of_digits b ds * b + d"])
  qed
qed

section \<open>Splitting a list at a separator\<close>

text \<open>
  \<open>split_at_sep s xs\<close> cuts \<open>xs\<close> at every occurrence of \<open>s\<close> (the ``strictly
  split'' of the WHATWG infrastructure standard): \<open>n\<close> separators give \<open>n + 1\<close> pieces.
  \<open>join_with s\<close> is its inverse on pieces free of \<open>s\<close>.
\<close>

fun split_at_sep :: "'a \<Rightarrow> 'a list \<Rightarrow> 'a list list" where
  "split_at_sep s [] = [[]]"
| "split_at_sep s (x # xs) =
     (if x = s then [] # split_at_sep s xs
      else (case split_at_sep s xs of p # ps \<Rightarrow> (x # p) # ps | [] \<Rightarrow> [[x]]))"

fun join_with :: "'a \<Rightarrow> 'a list list \<Rightarrow> 'a list" where
  "join_with s [] = []"
| "join_with s [p] = p"
| "join_with s (p # ps) = p @ s # join_with s ps"

lemma split_at_sep_ne [simp]: "split_at_sep s xs \<noteq> []"
  by (induction xs) (auto split: list.split)

lemma split_at_sep_append_sep:
  "s \<notin> set p \<Longrightarrow> split_at_sep s (p @ s # xs) = p # split_at_sep s xs"
  by (induction p) auto

lemma split_at_sep_free:
  "s \<notin> set p \<Longrightarrow> split_at_sep s p = [p]"
  by (induction p) auto

lemma split_join_with:
  "ps \<noteq> [] \<Longrightarrow> \<forall>p \<in> set ps. s \<notin> set p \<Longrightarrow> split_at_sep s (join_with s ps) = ps"
proof (induction s ps rule: join_with.induct)
  case (1 s)
  then show ?case by simp
next
  case (2 s p)
  then show ?case by (simp add: split_at_sep_free)
next
  case (3 s p q ps)
  then show ?case by (simp add: split_at_sep_append_sep)
qed

lemma set_join_with:
  "set (join_with s ps) \<subseteq> insert s (\<Union>p \<in> set ps. set p)"
  by (induction s ps rule: join_with.induct) auto

end
