(* ===== verification/JsNumber.thy ===== *)
theory JsNumber
  imports Prelude
begin

text \<open>
  JavaScript numbers as the client uses them: \<open>Number(s)\<close> on the filter strings of
  \<open>searchProducts\<close>, the product \<open>Number(s) * 100\<close>, and the printing of a number
  when \<open>URLSearchParams\<close> or \<open>JSON.stringify\<close> turn it into text
  (ECMAScript \<open>StringToNumber\<close>, \<open>Number::multiply\<close>, \<open>Number::toString\<close>).
  A finite number is an exact decimal \<open>Fin m e\<close>, the value \<open>m * 10 ^ e\<close>, kept
  normalised (no trailing zero digit in \<open>m\<close>, and \<open>Fin 0 0\<close> for zero), so that
  equal numbers are equal terms. Rounding to binary64, overflow to Infinity and the
  sign of zero are not modelled: the model computes with the decimal the user typed.
\<close>

datatype jsnum = NaN | PosInf | NegInf | Fin int int

section \<open>Normal form of a decimal\<close>

function dec_norm :: "int \<Rightarrow> int \<Rightarrow> jsnum" where
  "dec_norm m e =
     (if m = 0 then Fin 0 0 else if m mod 10 = 0 then dec_norm (m div 10) (e + 1) else Fin m e)"
  by pat_completeness auto
termination
  by (relation "measure (\<lambda>(m, e). nat \<bar>m\<bar>)") (auto simp: nat_less_eq_zless)

declare dec_norm.simps [simp del]

fun num_wf :: "jsnum \<Rightarrow> bool" where
  "num_wf (Fin m e) = (if m = 0 then e = 0 else \<not> 10 dvd m)"
| "num_wf _ = True"

definition num_of_int :: "int \<Rightarrow> jsnum" where
  "num_of_int i = dec_norm i 0"

text \<open>\<open>Number::multiply\<close> on the values the model has.\<close>

fun num_mul :: "jsnum \<Rightarrow> jsnum \<Rightarrow> jsnum" where
  "num_mul (Fin m1 e1) (Fin m2 e2) = dec_norm (m1 * m2) (e1 + e2)"
| "num_mul NaN _ = NaN"
| "num_mul _ NaN = NaN"
| "num_mul (Fin m e) PosInf = (if m = 0 then NaN else if 0 < m then PosInf else NegInf)"
| "num_mul (Fin m e) NegInf = (if m = 0 then NaN else if 0 < m then NegInf else PosInf)"
| "num_mul PosInf (Fin m e) = (if m = 0 then NaN else if 0 < m then PosInf else NegInf)"
| "num_mul NegInf (Fin m e) = (if m = 0 then NaN else if 0 < m then NegInf else PosInf)"
| "num_mul PosInf PosInf = PosInf"
| "num_mul NegInf NegInf = PosInf"
| "num_mul PosInf NegInf = NegInf"
| "num_mul NegInf PosInf = NegInf"

text \<open>\<open>ToBoolean\<close> of a number: false exactly for NaN and zero.\<close>

fun num_truthy :: "jsnum \<Rightarrow> bool" where
  "num_truthy NaN = False"
| "num_truthy (Fin m e) = (m \<noteq> 0)"
| "num_truthy _ = True"

section \<open>Characters and digits\<close>

definition is_digit :: "char \<Rightarrow> bool" where
  "is_digit c = (48 \<le> (of_char c :: nat) \<and> (of_char c :: nat) \<le> 57)"

definition digit_char :: "nat \<Rightarrow> char" where
  "digit_char d = char_of (48 + d)"

definition char_digit :: "char \<Rightarrow> nat" where
  "char_digit c = of_char c - 48"

definition decimal_string :: "nat \<Rightarrow> bytes" where
  "decimal_string n = map digit_char (digits_of 10 n)"

definition digits_value :: "bytes \<Rightarrow> nat" where
  "digits_value s = val_of_digits 10 (map char_digit s)"

text \<open>Digits of radix 2, 8 and 16 for the \<open>0b\<close>, \<open>0o\<close>, \<open>0x\<close> literals.\<close>

definition radix_digit :: "nat \<Rightarrow> char \<Rightarrow> nat option" where
  "radix_digit r c =
     (let n = (of_char c :: nat);
          d = (if 48 \<le> n \<and> n \<le> 57 then n - 48
               else if 65 \<le> n \<and> n \<le> 70 then n - 55
               else if 97 \<le> n \<and> n \<le> 102 then n - 87 else 16)
      in if d < r then Some d else None)"

fun radix_value :: "nat \<Rightarrow> nat \<Rightarrow> bytes \<Rightarrow> nat option" where
  "radix_value r acc [] = Some acc"
| "radix_value r acc (c # cs) =
     (case radix_digit r c of None \<Rightarrow> None | Some d \<Rightarrow> radix_value r (acc * r + d) cs)"

section \<open>StringToNumber\<close>

text \<open>
  \<open>StrWhiteSpaceChar\<close> restricted to ASCII: tab, line feed, vertical tab, form feed,
  carriage return and space (the non-ASCII white space of Unicode is not modelled).
\<close>

definition js_space :: "char \<Rightarrow> bool" where
  "js_space c = ((of_char c :: nat) \<in> {9, 10, 11, 12, 13, 32})"

definition trim_js :: "bytes \<Rightarrow> bytes" where
  "trim_js s = rev (dropWhile js_space (rev (dropWhile js_space s)))"

text \<open>An optional exponent part \<open>(e|E) [+|-] digits\<close>: its value, or \<open>None\<close>.\<close>

definition exponent_part :: "bytes \<Rightarrow> int option" where
  "exponent_part r =
     (case r of [] \<Rightarrow> Some 0
      | c # r' \<Rightarrow>
          if c \<noteq> CHR ''e'' \<and> c \<noteq> CHR ''E'' then None
          else (let (sg, ds) = (case r' of
                                  x # ds \<Rightarrow> if x = CHR ''+'' then (1, ds)
                                            else if x = CHR ''-'' then (-1, ds) else (1, r')
                                | [] \<Rightarrow> (1, []))
                in if ds \<noteq> [] \<and> list_all is_digit ds then Some (sg * int (digits_value ds))
                   else None))"

text \<open>
  \<open>StrUnsignedDecimalLiteral\<close> other than \<open>Infinity\<close>: digits, an optional fraction,
  an optional exponent, at least one digit in all. The result is the integer of all
  digits and the power of ten it is scaled by.
\<close>

definition unsigned_decimal :: "bytes \<Rightarrow> (nat \<times> int) option" where
  "unsigned_decimal s =
     (let ds1 = takeWhile is_digit s; r1 = dropWhile is_digit s
      in case r1 of
           c # r2 \<Rightarrow>
             if c = CHR ''.'' then
               (let ds2 = takeWhile is_digit r2; r3 = dropWhile is_digit r2
                in if ds1 = [] \<and> ds2 = [] then None
                   else map_option (\<lambda>x. (digits_value (ds1 @ ds2), x - int (length ds2)))
                          (exponent_part r3))
             else if ds1 = [] then None
             else map_option (\<lambda>x. (digits_value ds1, x)) (exponent_part r1)
         | [] \<Rightarrow> if ds1 = [] then None else Some (digits_value ds1, 0))"

definition decimal_literal :: "bytes \<Rightarrow> jsnum" where
  "decimal_literal s =
     (let (sg, u) = (case s of
                       c # r \<Rightarrow> if c = CHR ''+'' then (1, r)
                                 else if c = CHR ''-'' then (-1, r) else (1, s)
                     | [] \<Rightarrow> (1, []))
      in if u = ''Infinity'' then (if sg = (1::int) then PosInf else NegInf)
         else case unsigned_decimal u of
                None \<Rightarrow> NaN
              | Some (m, x) \<Rightarrow> dec_norm (sg * int m) x)"

definition non_decimal_literal :: "bytes \<Rightarrow> jsnum option" where
  "non_decimal_literal s =
     (case s of
        z # p # ds \<Rightarrow>
          (let r = (if p = CHR ''x'' \<or> p = CHR ''X'' then 16
                    else if p = CHR ''o'' \<or> p = CHR ''O'' then 8
                    else if p = CHR ''b'' \<or> p = CHR ''B'' then 2 else 0)
           in if z = CHR ''0'' \<and> r \<noteq> 0 \<and> ds \<noteq> [] then
                (case radix_value r 0 ds of None \<Rightarrow> Some NaN | Some n \<Rightarrow> Some (num_of_int (int n)))
              else None)
      | _ \<Rightarrow> None)"

definition string_to_number :: "bytes \<Rightarrow> jsnum" where
  "string_to_number s =
     (let t = trim_js s
      in if t = [] then Fin 0 0
         else case non_decimal_literal t of Some x \<Rightarrow> x | None \<Rightarrow> decimal_literal t)"

section \<open>Number::toString\<close>

text \<open>
  For a finite non-zero \<open>x = s * 10 ^ (n - k)\<close> with \<open>s\<close> of \<open>k\<close> digits and \<open>k\<close>
  least: plain digits up to \<open>10 ^ 21\<close>, a decimal point inside the digits, a \<open>0.\<close>
  prefix down to \<open>10 ^ -7\<close>, exponential notation beyond.
\<close>

definition exponent_string :: "int \<Rightarrow> bytes" where
  "exponent_string x =
     CHR ''e'' # (if 0 \<le> x then CHR ''+'' else CHR ''-'') # decimal_string (nat \<bar>x\<bar>)"

definition magnitude_string :: "bytes \<Rightarrow> int \<Rightarrow> bytes" where
  "magnitude_string s n =
     (let k = int (length s)
      in if k \<le> n \<and> n \<le> 21 then s @ replicate (nat (n - k)) CHR ''0''
         else if 0 < n \<and> n \<le> 21 then take (nat n) s @ CHR ''.'' # drop (nat n) s
         else if -6 < n \<and> n \<le> 0 then CHR ''0'' # CHR ''.'' # replicate (nat (- n)) CHR ''0'' @ s
         else if k = 1 then s @ exponent_string (n - 1)
         else [hd s] @ CHR ''.'' # tl s @ exponent_string (n - 1))"

fun num_to_string :: "jsnum \<Rightarrow> bytes" where
  "num_to_string NaN = ''NaN''"
| "num_to_string PosInf = ''Infinity''"
| "num_to_string NegInf = ''-Infinity''"
| "num_to_string (Fin m e) =
     (if m = 0 then ''0''
      else (let s = decimal_string (nat \<bar>m\<bar>)
            in (if m < 0 then ''-'' else []) @ magnitude_string s (int (length s) + e)))"

section \<open>Basic facts\<close>

lemma dec_norm_wf: "num_wf (dec_norm m e)"
proof (induction m e rule: dec_norm.induct)
  case (1 m e)
  then show ?case
    by (subst dec_norm.simps) (auto simp: dvd_eq_mod_eq_0)
qed

lemma dec_norm_id:
  "m \<noteq> 0 \<Longrightarrow> \<not> 10 dvd m \<Longrightarrow> dec_norm m e = Fin m e"
  by (subst dec_norm.simps) (simp add: dvd_eq_mod_eq_0)

lemma dec_norm_zero [simp]: "dec_norm 0 e = Fin 0 0"
  by (subst dec_norm.simps) simp

lemma dec_norm_times_10:
  "dec_norm (m * 10) e = dec_norm m (e + 1)"
proof (cases "m = 0")
  case True
  then show ?thesis by simp
next
  case False
  then show ?thesis by (subst dec_norm.simps) simp
qed

lemma dec_norm_times_pow10:
  "dec_norm (m * 10 ^ j) e = dec_norm m (e + int j)"
proof (induction j arbitrary: e)
  case 0
  then show ?case by simp
next
  case (Suc j)
  have "dec_norm (m * 10 ^ Suc j) e = dec_norm ((m * 10 ^ j) * 10) e"
    by (simp add: algebra_simps)
  also have "\<dots> = dec_norm (m * 10 ^ j) (e + 1)"
    by (rule dec_norm_times_10)
  also have "\<dots> = dec_norm m (e + int (Suc j))"
    by (simp add: Suc.IH add.assoc)
  finally show ?case .
qed

lemma num_wf_dec_norm_eq:
  "num_wf (Fin m e) \<Longrightarrow> dec_norm m e = Fin m e"
  by (cases "m = 0") (auto simp: dec_norm_id split: if_splits)

lemma num_mul_wf: "num_wf (num_mul x y)"
  by (cases x; cases y) (simp_all add: dec_norm_wf)

lemma num_of_int_wf: "num_wf (num_of_int i)"
  by (simp add: num_of_int_def dec_norm_wf)

lemma is_digit_digit_char [simp]: "d < 10 \<Longrightarrow> is_digit (digit_char d)"
  by (simp add: is_digit_def digit_char_def)

lemma char_digit_digit_char [simp]: "d < 10 \<Longrightarrow> char_digit (digit_char d) = d"
  by (simp add: char_digit_def digit_char_def)

lemma decimal_string_digits: "list_all is_digit (decimal_string n)"
  by (auto simp: decimal_string_def list_all_iff dest: digits_of_less [of 10, simplified])

lemma decimal_string_value [simp]: "digits_value (decimal_string n) = n"
proof -
  have "map (char_digit \<circ> digit_char) (digits_of 10 n) = digits_of 10 n"
    by (rule map_idI) (auto dest: digits_of_less [of 10, simplified])
  then show ?thesis by (simp add: digits_value_def decimal_string_def)
qed

lemma decimal_string_ne [simp]: "decimal_string n \<noteq> []"
  by (simp add: decimal_string_def)

lemmas num_simps [js_eval] =
  num_of_int_def num_to_string.simps magnitude_string_def exponent_string_def
  decimal_string_def digit_char_def string_to_number_def trim_js_def js_space_def
  decimal_literal_def non_decimal_literal_def unsigned_decimal_def exponent_part_def
  digits_value_def char_digit_def is_digit_def num_mul.simps num_truthy.simps

end
