(* ===== verification/JsValue.thy ===== *)
theory JsValue
  imports JsNumber
begin

text \<open>
  The JavaScript values that flow through the client: the caller's payloads and
  filters, the parsed JSON bodies of responses, and the payload objects the client
  builds. An object is the list of its own enumerable properties in the order
  \<open>[[OwnPropertyKeys]]\<close> returns them (array indices ascending, then the other
  keys in insertion order). Inherited properties of the built-in prototypes are not
  modelled: no property the client reads (\<open>token\<close>, \<open>isAdmin\<close>, \<open>url\<close>) is
  inherited by a built-in prototype.
\<close>

datatype jsval =
    JUndefined
  | JNull
  | JBool bool
  | JNum jsnum
  | JStr bytes
  | JArr "jsval list"
  | JObj "(bytes \<times> jsval) list"

type_synonym props = "(bytes \<times> jsval) list"

text \<open>
  What a \<open>throw\<close> carries to the caller. \<open>TypeError\<close> is raised by \<open>fetch\<close> when the
  request cannot be made (\<open>NetworkFailure\<close>) and by a property read or destructuring of
  \<open>null\<close> or \<open>undefined\<close>; \<open>SyntaxError\<close> by \<open>response.json()\<close> on a body that is
  not JSON; \<open>Error msg\<close> is \<open>new Error(msg)\<close>.
\<close>

datatype type_error_cause = NetworkFailure | NotObjectCoercible

datatype js_error = Error bytes | TypeError type_error_cause | SyntaxError

section \<open>Conversions\<close>

text \<open>\<open>ToBoolean\<close>, that is \<open>!!x\<close>.\<close>

fun js_truthy :: "jsval \<Rightarrow> bool" where
  "js_truthy JUndefined = False"
| "js_truthy JNull = False"
| "js_truthy (JBool b) = b"
| "js_truthy (JNum n) = num_truthy n"
| "js_truthy (JStr s) = (s \<noteq> [])"
| "js_truthy (JArr xs) = True"
| "js_truthy (JObj ps) = True"

text \<open>
  \<open>ToString\<close>; an array converts as \<open>Array.prototype.join\<close> does, with \<open>null\<close> and
  \<open>undefined\<close> elements empty; a plain object gives \<open>"[object Object]"\<close>.
\<close>

fun js_to_string :: "jsval \<Rightarrow> bytes" where
  "js_to_string JUndefined = ''undefined''"
| "js_to_string JNull = ''null''"
| "js_to_string (JBool b) = (if b then ''true'' else ''false'')"
| "js_to_string (JNum n) = num_to_string n"
| "js_to_string (JStr s) = s"
| "js_to_string (JArr xs) =
     join_with CHR '','' (map (\<lambda>x. if x = JUndefined \<or> x = JNull then [] else js_to_string x) xs)"
| "js_to_string (JObj ps) = ''[object Object]''"

text \<open>\<open>ToNumber\<close>; objects and arrays go through their string form.\<close>

fun js_to_number :: "jsval \<Rightarrow> jsnum" where
  "js_to_number JUndefined = NaN"
| "js_to_number JNull = Fin 0 0"
| "js_to_number (JBool b) = (if b then Fin 1 0 else Fin 0 0)"
| "js_to_number (JNum n) = n"
| "js_to_number (JStr s) = string_to_number s"
| "js_to_number (JArr xs) = string_to_number (js_to_string (JArr xs))"
| "js_to_number (JObj ps) = string_to_number (js_to_string (JObj ps))"

section \<open>Property keys and the order of own properties\<close>

text \<open>An array index is the canonical decimal string of an integer below \<open>2 ^ 32 - 1\<close>.\<close>

definition is_array_index :: "bytes \<Rightarrow> bool" where
  "is_array_index k =
     (k \<noteq> [] \<and> list_all is_digit k \<and> (k = ''0'' \<or> hd k \<noteq> CHR ''0'')
      \<and> digits_value k < 4294967295)"

definition key_before :: "bytes \<Rightarrow> bytes \<Rightarrow> bool" where
  "key_before a b =
     (is_array_index b \<longrightarrow> is_array_index a \<and> digits_value a < digits_value b)"

definition obj_wf :: "props \<Rightarrow> bool" where
  "obj_wf ps = (distinct (map fst ps) \<and> sorted_wrt key_before (map fst ps))"

text \<open>A new array-index key goes among the index keys, in ascending order.\<close>

fun insert_index :: "bytes \<Rightarrow> jsval \<Rightarrow> props \<Rightarrow> props" where
  "insert_index k v [] = [(k, v)]"
| "insert_index k v ((k', v') # ps) =
     (if is_array_index k' \<and> digits_value k' < digits_value k
      then (k', v') # insert_index k v ps else (k, v) # (k', v') # ps)"

text \<open>
  \<open>CreateDataProperty(O, k, v)\<close> on an ordinary object: an existing key keeps its
  place and takes the new value; a new key is placed by \<open>[[OwnPropertyKeys]]\<close>.
\<close>

definition obj_put :: "bytes \<Rightarrow> jsval \<Rightarrow> props \<Rightarrow> props" where
  "obj_put k v ps =
     (if k \<in> set (map fst ps) then map (\<lambda>(k', v'). if k' = k then (k', v) else (k', v')) ps
      else if is_array_index k then insert_index k v ps
      else ps @ [(k, v)])"

text \<open>
  The own enumerable properties that object spread \<open>{...x}\<close> copies: none for
  \<open>undefined\<close>, \<open>null\<close>, booleans and numbers, the indexed characters of a string, the
  indexed elements of an array.
\<close>

fun own_props :: "jsval \<Rightarrow> props" where
  "own_props (JStr s) = map (\<lambda>i. (decimal_string i, JStr [s ! i])) [0..<length s]"
| "own_props (JArr xs) = map (\<lambda>i. (decimal_string i, xs ! i)) [0..<length xs]"
| "own_props (JObj ps) = ps"
| "own_props _ = []"

text \<open>\<open>CopyDataProperties(target, source)\<close>: the spread \<open>{...target, ...source}\<close>.\<close>

definition obj_copy :: "props \<Rightarrow> jsval \<Rightarrow> props" where
  "obj_copy target src = foldl (\<lambda>acc (k, v). obj_put k v acc) target (own_props src)"

text \<open>
  \<open>GetV(v, k)\<close>: reading a property, and the \<open>RequireObjectCoercible\<close> check of a
  destructuring \<open>const {k} = v\<close>: \<open>null\<close> and \<open>undefined\<close> throw a \<open>TypeError\<close>.
\<close>

fun get_prop :: "jsval \<Rightarrow> bytes \<Rightarrow> js_error + jsval" where
  "get_prop JUndefined k = Inl (TypeError NotObjectCoercible)"
| "get_prop JNull k = Inl (TypeError NotObjectCoercible)"
| "get_prop (JObj ps) k = Inr (case map_of ps k of Some v \<Rightarrow> v | None \<Rightarrow> JUndefined)"
| "get_prop (JArr xs) k =
     Inr (if k = ''length'' then JNum (num_of_int (int (length xs)))
          else if is_array_index k \<and> digits_value k < length xs then xs ! digits_value k
          else JUndefined)"
| "get_prop (JStr s) k =
     Inr (if k = ''length'' then JNum (num_of_int (int (length s)))
          else if is_array_index k \<and> digits_value k < length s then JStr [s ! digits_value k]
          else JUndefined)"
| "get_prop _ k = Inr JUndefined"

section \<open>JSON.stringify\<close>

definition hex_lower :: "nat \<Rightarrow> char" where
  "hex_lower d = (if d < 10 then digit_char d else char_of (87 + d))"

text \<open>\<open>QuoteJSONString\<close> on one byte.\<close>

definition json_escape :: "char \<Rightarrow> bytes" where
  "json_escape c =
     (let n = (of_char c :: nat)
      in if n = 8 then [CHR 0x5C, CHR ''b'']
         else if n = 9 then [CHR 0x5C, CHR ''t'']
         else if n = 10 then [CHR 0x5C, CHR ''n'']
         else if n = 12 then [CHR 0x5C, CHR ''f'']
         else if n = 13 then [CHR 0x5C, CHR ''r'']
         else if n = 34 then [CHR 0x5C, CHR 0x22]
         else if n = 92 then [CHR 0x5C, CHR 0x5C]
         else if n < 32 then [CHR 0x5C, CHR ''u'', CHR ''0'', CHR ''0'', hex_lower (n div 16), hex_lower (n mod 16)]
         else [c])"

definition json_quote :: "bytes \<Rightarrow> bytes" where
  "json_quote s = CHR 0x22 # concat (map json_escape s) @ [CHR 0x22]"

text \<open>
  \<open>SerializeJSONProperty\<close>: \<open>None\<close> is the \<open>undefined\<close> result, which drops an
  object member and prints \<open>null\<close> as an array element; a non-finite number prints
  \<open>null\<close>.
\<close>

fun json_ser :: "jsval \<Rightarrow> bytes option"
  and json_elems :: "jsval list \<Rightarrow> bytes list"
  and json_members :: "props \<Rightarrow> bytes list" where
  "json_ser JUndefined = None"
| "json_ser JNull = Some ''null''"
| "json_ser (JBool b) = Some (if b then ''true'' else ''false'')"
| "json_ser (JNum n) = Some (case n of Fin m e \<Rightarrow> num_to_string n | _ \<Rightarrow> ''null'')"
| "json_ser (JStr s) = Some (json_quote s)"
| "json_ser (JArr xs) = Some (CHR ''['' # join_with CHR '','' (json_elems xs) @ [CHR '']''])"
| "json_ser (JObj ps) = Some (CHR ''{'' # join_with CHR '','' (json_members ps) @ [CHR ''}''])"
| "json_elems [] = []"
| "json_elems (x # xs) = (case json_ser x of None \<Rightarrow> ''null'' | Some t \<Rightarrow> t) # json_elems xs"
| "json_members [] = []"
| "json_members ((k, v) # ps) =
     (case json_ser v of None \<Rightarrow> json_members ps
      | Some t \<Rightarrow> (json_quote k @ CHR '':'' # t) # json_members ps)"

text \<open>\<open>JSON.stringify(v)\<close>: a string, or \<open>undefined\<close> for a value with no JSON text.\<close>

definition json_stringify :: "jsval \<Rightarrow> bytes option" where
  "json_stringify v = json_ser v"

lemmas value_simps [js_eval] =
  is_array_index_def obj_put_def obj_copy_def json_stringify_def json_quote_def
  json_escape_def hex_lower_def

section \<open>Object operations: lookup, key order, JSON members\<close>

lemma digit_char_char_digit [simp]: "is_digit c \<Longrightarrow> digit_char (char_digit c) = c"
  by (simp add: is_digit_def digit_char_def char_digit_def)

lemma char_digit_less: "is_digit c \<Longrightarrow> char_digit c < 10"
  unfolding is_digit_def char_digit_def by arith

lemma decimal_string_digits_value:
  assumes "s \<noteq> []" "list_all is_digit s" "s = ''0'' \<or> hd s \<noteq> CHR ''0''"
  shows "decimal_string (digits_value s) = s"
proof -
  let ?ds = "map char_digit s"
  have lt: "\<forall>d \<in> set ?ds. d < 10"
    using assms(2) by (auto simp: list_all_iff char_digit_less)
  have "hd ?ds \<noteq> 0 \<or> ?ds = [0]"
  proof (cases "s = ''0''")
    case True
    then show ?thesis by (simp add: char_digit_def)
  next
    case False
    with assms have "hd s \<noteq> CHR ''0''" and "is_digit (hd s)"
      by (auto simp: list_all_iff)
    have "(of_char (hd s) :: nat) \<noteq> 48"
    proof
      assume "(of_char (hd s) :: nat) = 48"
      then have "(of_char (hd s) :: nat) = of_char (CHR ''0'')" by simp
      then have "hd s = CHR ''0''" by (simp only: of_char_eq_iff)
      with \<open>hd s \<noteq> CHR ''0''\<close> show False by simp
    qed
    with \<open>is_digit (hd s)\<close> have "char_digit (hd s) \<noteq> 0"
      unfolding is_digit_def char_digit_def by arith
    with assms(1) show ?thesis by (simp add: hd_map)
  qed
  with lt assms(1) have "digits_of 10 (val_of_digits 10 ?ds) = ?ds"
    by (intro digits_of_val_inv) auto
  then have "decimal_string (digits_value s) = map digit_char (map char_digit s)"
    by (simp add: decimal_string_def digits_value_def)
  also have "\<dots> = s"
    using assms(2) by (induction s) auto
  finally show ?thesis .
qed

lemma array_index_inj:
  "is_array_index a \<Longrightarrow> is_array_index b \<Longrightarrow> digits_value a = digits_value b \<Longrightarrow> a = b"
  by (metis decimal_string_digits_value is_array_index_def)

lemma map_fst_replace:
  "map fst (map (\<lambda>(k', v'). if k' = k then (k', v) else (k', v')) ps) = map fst ps"
  by (induction ps) auto

lemma map_of_replace:
  "map_of (map (\<lambda>(k', v'). if k' = k then (k', v) else (k', v')) ps) =
     (if k \<in> set (map fst ps) then (map_of ps)(k \<mapsto> v) else map_of ps)"
  by (induction ps) (auto simp: fun_eq_iff)

lemma insert_index_keys: "fst ` set (insert_index k v ps) = insert k (fst ` set ps)"
proof (induction ps)
  case Nil
  then show ?case by simp
next
  case (Cons kv ps)
  then show ?case by (cases kv) auto
qed

lemma distinct_insert_index:
  "k \<notin> set (map fst ps) \<Longrightarrow> distinct (map fst ps) \<Longrightarrow> distinct (map fst (insert_index k v ps))"
proof (induction ps)
  case Nil
  then show ?case by simp
next
  case (Cons kv ps)
  then show ?case
    using insert_index_keys [of k v ps] by (cases kv) auto
qed

lemma map_of_insert_index:
  "k \<notin> set (map fst ps) \<Longrightarrow> map_of (insert_index k v ps) = (map_of ps)(k \<mapsto> v)"
  by (induction k v ps rule: insert_index.induct) (auto simp: fun_eq_iff)

lemma map_of_snoc_new:
  "k \<notin> set (map fst ps) \<Longrightarrow> map_of (ps @ [(k, v)]) = (map_of ps)(k \<mapsto> v)"
proof -
  assume "k \<notin> set (map fst ps)"
  then have "map_of ps k = None" by (simp add: map_of_eq_None_iff)
  then show ?thesis by (auto simp: fun_eq_iff map_add_def split: option.split)
qed

lemma map_fst_obj_put_present:
  "k \<in> set (map fst ps) \<Longrightarrow> map fst (obj_put k v ps) = map fst ps"
  by (simp add: obj_put_def map_fst_replace del: map_map)

lemma map_of_obj_put [simp]: "map_of (obj_put k v ps) = (map_of ps)(k \<mapsto> v)"
  by (simp add: obj_put_def map_of_replace map_of_insert_index map_of_snoc_new del: map_of_append)

lemma keys_obj_put: "set (map fst (obj_put k v ps)) = insert k (set (map fst ps))"
proof (cases "k \<in> set (map fst ps)")
  case True
  then show ?thesis by (simp add: map_fst_obj_put_present insert_absorb)
next
  case False
  then show ?thesis by (auto simp: obj_put_def insert_index_keys)
qed

lemma insert_index_sorted:
  assumes "sorted_wrt key_before (map fst ps)" and "is_array_index k"
    and "k \<notin> set (map fst ps)"
  shows "sorted_wrt key_before (map fst (insert_index k v ps))"
  using assms
proof (induction k v ps rule: insert_index.induct)
  case (1 k v)
  then show ?case by simp
next
  case (2 k v k' v' ps)
  show ?case
  proof (cases "is_array_index k' \<and> digits_value k' < digits_value k")
    case True
    with "2.prems" have "sorted_wrt key_before (map fst (insert_index k v ps))"
      by (intro "2.IH") auto
    moreover have "\<forall>x \<in> set (map fst (insert_index k v ps)). key_before k' x"
    proof
      fix x assume "x \<in> set (map fst (insert_index k v ps))"
      then have "x = k \<or> x \<in> set (map fst ps)" by (simp add: insert_index_keys)
      then show "key_before k' x"
        using "2.prems" True by (auto simp: key_before_def)
    qed
    ultimately show ?thesis using True by simp
  next
    case False
    have ne: "k' \<noteq> k" using "2.prems" by auto
    have kk': "key_before k k'"
    proof (cases "is_array_index k'")
      case True
      with False have "digits_value k \<le> digits_value k'" by simp
      moreover have "digits_value k \<noteq> digits_value k'"
        using ne True "2.prems" array_index_inj by metis
      ultimately show ?thesis using "2.prems" by (simp add: key_before_def)
    next
      case False
      then show ?thesis by (simp add: key_before_def)
    qed
    have "\<forall>x \<in> set (map fst ps). key_before k x"
    proof
      fix x assume x: "x \<in> set (map fst ps)"
      with "2.prems" have "key_before k' x" by auto
      with kk' show "key_before k x" by (auto simp: key_before_def)
    qed
    moreover have "insert_index k v ((k', v') # ps) = (k, v) # (k', v') # ps"
      using False by (simp only: insert_index.simps if_False)
    ultimately show ?thesis using kk' "2.prems" by simp
  qed
qed

lemma obj_put_wf: "obj_wf ps \<Longrightarrow> obj_wf (obj_put k v ps)"
proof -
  assume wf: "obj_wf ps"
  show ?thesis
  proof (cases "k \<in> set (map fst ps)")
    case True
    with wf show ?thesis by (simp add: obj_wf_def map_fst_obj_put_present)
  next
    case False
    show ?thesis
    proof (cases "is_array_index k")
      case True
      have "distinct (map fst (insert_index k v ps))"
        using wf False by (intro distinct_insert_index) (auto simp: obj_wf_def)
      moreover have "sorted_wrt key_before (map fst (insert_index k v ps))"
        using wf False True by (intro insert_index_sorted) (auto simp: obj_wf_def)
      ultimately show ?thesis using False True by (simp add: obj_wf_def obj_put_def)
    next
      case nidx: False
      then have "\<forall>x \<in> set (map fst ps). key_before x k" by (simp add: key_before_def)
      with wf False nidx show ?thesis
        by (simp add: obj_wf_def obj_put_def sorted_wrt_append)
    qed
  qed
qed

lemma obj_copy_wf: "obj_wf acc \<Longrightarrow> obj_wf (obj_copy acc src)"
proof -
  have "\<And>acc. obj_wf acc \<Longrightarrow> obj_wf (foldl (\<lambda>acc (k, v). obj_put k v acc) acc kvs)" for kvs
    by (induction kvs) (auto simp: obj_put_wf)
  then show "obj_wf acc \<Longrightarrow> obj_wf (obj_copy acc src)" by (simp add: obj_copy_def)
qed

lemma obj_wf_Nil [simp]: "obj_wf []"
  by (simp add: obj_wf_def)

lemma map_of_foldl_put:
  "distinct (map fst kvs) \<Longrightarrow>
   map_of (foldl (\<lambda>acc (k, v). obj_put k v acc) acc kvs) = map_of acc ++ map_of kvs"
proof (induction kvs arbitrary: acc)
  case Nil
  then show ?case by simp
next
  case (Cons kv kvs)
  obtain k v where kv: "kv = (k, v)" by fastforce
  with Cons.prems have "k \<notin> set (map fst kvs)" and d: "distinct (map fst kvs)" by auto
  then have none: "map_of kvs k = None" by (simp add: map_of_eq_None_iff)
  have "map_of (foldl (\<lambda>acc (k, v). obj_put k v acc) acc (kv # kvs))
        = map_of (obj_put k v acc) ++ map_of kvs"
    using Cons.IH d kv by simp
  also have "\<dots> = map_of acc ++ map_of (kv # kvs)"
    using none kv by (auto simp: map_add_def fun_eq_iff split: option.split)
  finally show ?case .
qed

lemma map_of_obj_copy:
  "distinct (map fst (own_props src)) \<Longrightarrow>
   map_of (obj_copy acc src) = map_of acc ++ map_of (own_props src)"
  by (simp add: obj_copy_def map_of_foldl_put)

lemma json_members_snoc_undefined: "json_members (ps @ [(k, JUndefined)]) = json_members ps"
proof (induction ps)
  case Nil
  then show ?case by simp
next
  case (Cons kv ps)
  then show ?case by (cases kv) (simp split: option.split)
qed

lemma json_members_replace_undefined:
  "json_members (map (\<lambda>(k', v'). if k' = k then (k', JUndefined) else (k', v')) ps) =
   json_members (filter (\<lambda>kv. fst kv \<noteq> k) ps)"
proof (induction ps)
  case Nil
  then show ?case by simp
next
  case (Cons kv ps)
  then show ?case by (cases kv) (simp split: option.split)
qed

lemma json_members_insert_undefined: "json_members (insert_index k JUndefined ps) = json_members ps"
proof (induction ps)
  case Nil
  then show ?case by simp
next
  case (Cons kv ps)
  then show ?case by (cases kv) (simp split: option.split)
qed

text \<open>Setting a member to \<open>undefined\<close> removes it from the JSON text.\<close>

lemma json_members_put_undefined:
  "json_members (obj_put k JUndefined ps) = json_members (filter (\<lambda>kv. fst kv \<noteq> k) ps)"
proof (cases "k \<in> set (map fst ps)")
  case True
  then show ?thesis by (simp add: obj_put_def json_members_replace_undefined)
next
  case False
  then have "filter (\<lambda>kv. fst kv \<noteq> k) ps = ps" by (auto intro: filter_True)
  with False show ?thesis
    by (simp add: obj_put_def json_members_snoc_undefined json_members_insert_undefined)
qed

end
