(* ===== verification/Auth.thy ===== *)
theory Auth
  imports JsValue
begin

text \<open>
  The session collaborator \<open>auth\<close> (imported by \<open>src/lib/api.js\<close> from
  \<open>./auth\<close>, a module that is not among the repository's sources). It is modelled from
  the specification: it holds the current bearer token and the admin flag,
  \<open>getCurrentToken()\<close> returns the token or \<open>null\<close> when nobody is logged in, and
  \<open>logIn(token, isAdmin)\<close> stores both. The values are the JavaScript values
  \<open>login\<close> passes, so a response without a token stores \<open>undefined\<close>.
\<close>

record session =
  token :: jsval
  is_admin :: jsval

definition logged_out :: session where
  "logged_out = \<lparr>token = JNull, is_admin = JBool False\<rparr>"

definition getCurrentToken :: "session \<Rightarrow> jsval" where
  "getCurrentToken s = token s"

definition logIn :: "jsval \<Rightarrow> jsval \<Rightarrow> session \<Rightarrow> session" where
  "logIn t a s = s\<lparr>token := t, is_admin := a\<rparr>"

lemma getCurrentToken_logIn [simp]: "getCurrentToken (logIn t a s) = t"
  by (simp add: getCurrentToken_def logIn_def)

lemma getCurrentToken_logged_out [simp]: "getCurrentToken logged_out = JNull"
  by (simp add: getCurrentToken_def logged_out_def)

end
