(* ===== verification/UrlEncode.thy ===== *)
theory UrlEncode
  imports JsValue
begin

text \<open>
  The query strings the client builds: \<open>new URLSearchParams(record).toString()\<close>
  (the \<open>application/x-www-form-urlencoded\<close> serializer of the WHATWG URL standard),
  the \<open>url.search = ...\<close> setter on a \<open>URL\<close> object, and the standard's parser of
  such a query, which is how the backend reads the filters back. Strings are UTF-8
  bytes, so the encoder works byte by byte as the standard's does.
\<close>

section \<open>Serializer\<close>

definition form_safe :: "char \<Rightarrow> bool" where
  "form_safe c =
     (let n = (of_char c :: nat)
      in (48 \<le> n \<and> n \<le> 57) \<or> (65 \<le> n \<and> n \<le> 90) \<or> (97 \<le> n \<and> n \<le> 122)
         \<or> n = 42 \<or> n = 45 \<or> n = 46 \<or> n = 95)"

definition hex_upper :: "nat \<Rightarrow> char" where
  "hex_upper d = (if d < 10 then digit_char d else char_of (55 + d))"

definition percent_byte :: "char \<Rightarrow> bytes" where
  "percent_byte c =
     [CHR ''%'', hex_upper ((of_char c :: nat) div 16), hex_upper ((of_char c :: nat) mod 16)]"

definition form_encode_byte :: "char \<Rightarrow> bytes" where
  "form_encode_byte c =
     (if c = CHR '' '' then [CHR ''+''] else if form_safe c then [c] else percent_byte c)"

definition form_encode :: "bytes \<Rightarrow> bytes" where
  "form_encode s = concat (map form_encode_byte s)"

definition form_serialize :: "(bytes \<times> bytes) list \<Rightarrow> bytes" where
  "form_serialize ps =
     join_with CHR ''&'' (map (\<lambda>(n, v). form_encode n @ CHR ''='' # form_encode v) ps)"

text \<open>
  The \<open>URLSearchParams\<close> constructor on a record: each own property becomes a
  name-value pair, the value converted by \<open>ToString\<close>.
\<close>

definition search_params_of :: "props \<Rightarrow> (bytes \<times> bytes) list" where
  "search_params_of ps = map (\<lambda>(k, v). (k, js_to_string v)) ps"

section \<open>The search setter of a URL\<close>

text \<open>
  \<open>url.search = s\<close> on a URL of a special scheme without query or fragment: an empty
  \<open>s\<close> leaves no query; otherwise one leading \<open>?\<close> is dropped and the rest is
  percent-encoded with the special-query set (C0 controls, space, \<open>"\<close>, \<open>#\<close>,
  \<open><\<close>, \<open>>\<close>, \<open>'\<close>, and bytes above \<open>0x7E\<close>). The model's URL is its \<open>href\<close>.
\<close>

definition query_encode_byte :: "char \<Rightarrow> bytes" where
  "query_encode_byte c =
     (let n = (of_char c :: nat)
      in if n < 33 \<or> 126 < n \<or> n = 34 \<or> n = 35 \<or> n = 60 \<or> n = 62 \<or> n = 39
         then percent_byte c else [c])"

definition url_set_search :: "bytes \<Rightarrow> bytes \<Rightarrow> bytes" where
  "url_set_search href s =
     (if s = [] then href
      else href @ CHR ''?'' # concat (map query_encode_byte
                                 (case s of c # r \<Rightarrow> if c = CHR ''?'' then r else s | [] \<Rightarrow> [])))"

section \<open>Parser\<close>

definition hex_value :: "char \<Rightarrow> nat option" where
  "hex_value c = radix_digit 16 c"

fun percent_decode :: "bytes \<Rightarrow> bytes" where
  "percent_decode (c # h1 # h2 # r) =
     (case (hex_value h1, hex_value h2) of
        (Some a, Some b) \<Rightarrow> if c = CHR ''%'' then char_of (a * 16 + b) # percent_decode r
                            else c # percent_decode (h1 # h2 # r)
      | _ \<Rightarrow> c # percent_decode (h1 # h2 # r))"
| "percent_decode (c # r) = c # percent_decode r"
| "percent_decode [] = []"

definition plus_to_space :: "bytes \<Rightarrow> bytes" where
  "plus_to_space s = map (\<lambda>c. if c = CHR ''+'' then CHR '' '' else c) s"

definition form_parse_pair :: "bytes \<Rightarrow> bytes \<times> bytes" where
  "form_parse_pair q =
     (let n = takeWhile (\<lambda>c. c \<noteq> CHR ''='') q; r = dropWhile (\<lambda>c. c \<noteq> CHR ''='') q
      in (percent_decode (plus_to_space n), percent_decode (plus_to_space (drop 1 r))))"

definition form_parse :: "bytes \<Rightarrow> (bytes \<times> bytes) list" where
  "form_parse s = map form_parse_pair (filter (\<lambda>q. q \<noteq> []) (split_at_sep CHR ''&'' s))"

text \<open>The query the server reads off a URL: everything after the first \<open>?\<close>.\<close>

definition url_query :: "bytes \<Rightarrow> bytes" where
  "url_query u = drop 1 (dropWhile (\<lambda>c. c \<noteq> CHR ''?'') u)"

lemmas url_simps [js_eval] =
  form_safe_def hex_upper_def percent_byte_def form_encode_byte_def form_encode_def
  form_serialize_def search_params_of_def query_encode_byte_def url_set_search_def
  hex_value_def plus_to_space_def form_parse_pair_def form_parse_def url_query_def

section \<open>Decoding inverts encoding\<close>

lemma hex_value_hex_upper [simp]: "d < 16 \<Longrightarrow> hex_value (hex_upper d) = Some d"
  by (auto simp: hex_value_def hex_upper_def radix_digit_def digit_char_def Let_def)

lemma of_char_hex_digits:
  "(of_char c :: nat) div 16 < 16" "(of_char c :: nat) mod 16 < 16"
proof -
  have "(of_char c :: nat) < 16 * 16" using nat_of_char_less_256 [of c] by simp
  then show "(of_char c :: nat) div 16 < 16" by (simp add: div_less_iff_less_mult)
  show "(of_char c :: nat) mod 16 < 16" by simp
qed

lemma percent_byte_decode:
  "percent_decode (percent_byte c @ r) = c # percent_decode r"
proof -
  note of_char_hex_digits [of c]
  moreover have "char_of ((of_char c :: nat) div 16 * 16 + (of_char c :: nat) mod 16) = c"
    by simp
  ultimately show ?thesis by (simp add: percent_byte_def)
qed

lemma percent_decode_other:
  "c \<noteq> CHR ''%'' \<Longrightarrow> percent_decode (c # r) = c # percent_decode r"
  by (cases r rule: percent_decode.cases) (auto split: option.split)

lemma hex_upper_not_special:
  "d < 16 \<Longrightarrow> hex_upper d \<noteq> CHR ''+'' \<and> hex_upper d \<noteq> CHR ''&'' \<and> hex_upper d \<noteq> CHR ''=''"
  by (auto simp: hex_upper_def digit_char_def char_of_eq_iff take_bit_eq_mod)

lemma percent_byte_chars:
  "x \<in> set (percent_byte c) \<Longrightarrow> x \<noteq> CHR ''+'' \<and> x \<noteq> CHR ''&'' \<and> x \<noteq> CHR ''=''"
  using hex_upper_not_special [OF of_char_hex_digits(1) [of c]]
    hex_upper_not_special [OF of_char_hex_digits(2) [of c]]
  by (auto simp: percent_byte_def)

lemma form_safe_not_special:
  "form_safe c \<Longrightarrow> c \<noteq> CHR ''+'' \<and> c \<noteq> CHR ''&'' \<and> c \<noteq> CHR ''='' \<and> c \<noteq> CHR ''%'' \<and> c \<noteq> CHR '' ''"
  by (auto simp: form_safe_def)

lemma form_encode_chars:
  "x \<in> set (form_encode s) \<Longrightarrow> x \<noteq> CHR ''&'' \<and> x \<noteq> CHR ''=''"
  by (auto simp: form_encode_def form_encode_byte_def split: if_splits
           dest: percent_byte_chars form_safe_not_special)

lemma plus_to_space_form_encode_byte:
  "plus_to_space (form_encode_byte c) =
     (if c = CHR '' '' then [c] else if form_safe c then [c] else percent_byte c)"
proof -
  have "map (\<lambda>x. if x = CHR ''+'' then CHR '' '' else x) (percent_byte c) = percent_byte c"
    by (rule map_idI) (simp add: percent_byte_chars)
  then show ?thesis
    by (auto simp: plus_to_space_def form_encode_byte_def dest: form_safe_not_special)
qed

lemma form_decode_encode: "percent_decode (plus_to_space (form_encode s)) = s"
proof (induction s)
  case Nil
  then show ?case by (simp add: form_encode_def plus_to_space_def)
next
  case (Cons c s)
  have split: "plus_to_space (form_encode (c # s)) =
      plus_to_space (form_encode_byte c) @ plus_to_space (form_encode s)"
    by (simp add: form_encode_def plus_to_space_def)
  show ?case
  proof (cases "c = CHR '' '' \<or> form_safe c")
    case True
    then have "c \<noteq> CHR ''%''" by (auto dest: form_safe_not_special)
    with True Cons.IH show ?thesis
      by (auto simp: split plus_to_space_form_encode_byte percent_decode_other)
  next
    case False
    with Cons.IH show ?thesis
      by (simp add: split plus_to_space_form_encode_byte percent_byte_decode)
  qed
qed

lemma form_parse_pair_encoded:
  "form_parse_pair (form_encode n @ CHR ''='' # form_encode v) = (n, v)"
proof -
  have "CHR ''='' \<notin> set (form_encode n)" by (auto dest: form_encode_chars)
  then have "takeWhile (\<lambda>c. c \<noteq> CHR ''='') (form_encode n @ CHR ''='' # form_encode v) = form_encode n"
    and "dropWhile (\<lambda>c. c \<noteq> CHR ''='') (form_encode n @ CHR ''='' # form_encode v)
           = CHR ''='' # form_encode v"
    by (auto simp: takeWhile_append2 dropWhile_append2 takeWhile_append dropWhile_append)
  then show ?thesis by (simp add: form_parse_pair_def form_decode_encode)
qed

lemma form_encode_pair_ne:
  "form_encode n @ CHR ''='' # form_encode v \<noteq> []"
  by simp

lemma form_parse_pairs_encoded:
  "map form_parse_pair (map (\<lambda>(n, v). form_encode n @ CHR ''='' # form_encode v) ps) = ps"
  by (induction ps) (auto simp: form_parse_pair_encoded)

lemma form_parse_serialize:
  "form_parse (form_serialize ps) = ps"
proof (cases "ps = []")
  case True
  then show ?thesis by (simp add: form_parse_def form_serialize_def)
next
  case False
  define qs where "qs = map (\<lambda>(n, v). form_encode n @ CHR ''='' # form_encode v) ps"
  have free: "\<forall>q \<in> set qs. CHR ''&'' \<notin> set q"
    by (auto simp: qs_def dest: form_encode_chars)
  from False have "qs \<noteq> []" by (simp add: qs_def)
  with free have "split_at_sep CHR ''&'' (join_with CHR ''&'' qs) = qs"
    by (rule split_join_with [rotated])
  moreover have "filter (\<lambda>q. q \<noteq> []) qs = qs"
    by (rule filter_True) (auto simp: qs_def)
  moreover have "map form_parse_pair qs = ps"
    unfolding qs_def by (rule form_parse_pairs_encoded)
  ultimately show ?thesis
    by (simp add: form_parse_def form_serialize_def qs_def)
qed

section \<open>The search setter keeps a serialized query as it is\<close>

definition query_plain :: "char \<Rightarrow> bool" where
  "query_plain c =
     (let n = (of_char c :: nat)
      in 33 \<le> n \<and> n \<le> 126 \<and> n \<noteq> 34 \<and> n \<noteq> 35 \<and> n \<noteq> 60 \<and> n \<noteq> 62 \<and> n \<noteq> 39 \<and> n \<noteq> 63)"

lemma query_plain_encode: "query_plain c \<Longrightarrow> query_encode_byte c = [c]"
  by (simp add: query_plain_def query_encode_byte_def Let_def)

lemma query_encode_plain_id:
  "\<forall>x \<in> set s. query_plain x \<Longrightarrow> concat (map query_encode_byte s) = s"
  by (induction s) (simp_all add: query_plain_encode)

lemma hex_upper_plain: "d < 16 \<Longrightarrow> query_plain (hex_upper d)"
  by (auto simp: query_plain_def hex_upper_def digit_char_def)

lemma form_safe_plain: "form_safe c \<Longrightarrow> query_plain c"
  by (auto simp: form_safe_def query_plain_def Let_def)

lemma percent_byte_plain: "x \<in> set (percent_byte c) \<Longrightarrow> query_plain x"
proof -
  assume "x \<in> set (percent_byte c)"
  then have "x = CHR ''%'' \<or> x = hex_upper ((of_char c :: nat) div 16)
             \<or> x = hex_upper ((of_char c :: nat) mod 16)"
    by (auto simp: percent_byte_def)
  then show ?thesis
    using hex_upper_plain [OF of_char_hex_digits(1)] hex_upper_plain [OF of_char_hex_digits(2)]
    by (auto simp: query_plain_def)
qed

lemma form_encode_plain: "x \<in> set (form_encode s) \<Longrightarrow> query_plain x"
proof -
  assume "x \<in> set (form_encode s)"
  then obtain c where "x \<in> set (form_encode_byte c)"
    by (auto simp: form_encode_def)
  then have "x = CHR ''+'' \<or> (form_safe c \<and> x = c) \<or> x \<in> set (percent_byte c)"
    by (auto simp: form_encode_byte_def split: if_splits)
  then show ?thesis
    by (auto simp: query_plain_def dest: form_safe_plain percent_byte_plain)
qed

lemma form_serialize_plain: "x \<in> set (form_serialize ps) \<Longrightarrow> query_plain x"
proof -
  assume x: "x \<in> set (form_serialize ps)"
  have "set (form_serialize ps) \<subseteq>
      insert CHR ''&'' (\<Union>q \<in> set (map (\<lambda>(n, v). form_encode n @ CHR ''='' # form_encode v) ps). set q)"
    unfolding form_serialize_def by (rule set_join_with)
  with x have "x = CHR ''&'' \<or> x = CHR ''='' \<or> (\<exists>s. x \<in> set (form_encode s))"
    by auto
  then show ?thesis
    by (auto simp: query_plain_def dest: form_encode_plain)
qed

lemma form_serialize_Nil_iff: "form_serialize ps = [] \<longleftrightarrow> ps = []"
  by (cases ps rule: remdups_adj.cases) (auto simp: form_serialize_def split: prod.splits)

lemma url_set_search_serialize:
  "url_set_search href (form_serialize ps) =
     (if ps = [] then href else href @ CHR ''?'' # form_serialize ps)"
proof (cases "form_serialize ps")
  case Nil
  then show ?thesis by (simp add: url_set_search_def form_serialize_Nil_iff [symmetric])
next
  case (Cons x r)
  have plain: "\<forall>y \<in> set (form_serialize ps). query_plain y"
    using form_serialize_plain by blast
  with Cons have "x \<noteq> CHR ''?''" by (auto simp: query_plain_def)
  with Cons plain show ?thesis
    by (auto simp: url_set_search_def form_serialize_Nil_iff [symmetric] query_encode_plain_id
             query_plain_encode)
qed

lemma url_query_set_search:
  assumes "CHR ''?'' \<notin> set href"
  shows "url_query (url_set_search href (form_serialize ps)) = form_serialize ps"
proof -
  from assms have dw: "dropWhile (\<lambda>c. c \<noteq> CHR ''?'') href = []"
    by (auto simp: dropWhile_eq_Nil_conv)
  show ?thesis
  proof (cases "form_serialize ps")
    case Nil
    then show ?thesis by (simp add: url_query_def url_set_search_def dw)
  next
    case (Cons c r)
    have plain: "\<forall>x \<in> set (form_serialize ps). query_plain x"
      by (auto dest: form_serialize_plain)
    then have "c \<noteq> CHR ''?''" using Cons by (auto simp: query_plain_def)
    moreover have "concat (map query_encode_byte (form_serialize ps)) = form_serialize ps"
      using plain by (rule query_encode_plain_id)
    ultimately show ?thesis using Cons
      by (simp add: url_query_def url_set_search_def dw dropWhile_append3)
  qed
qed

lemma url_query_first:
  "CHR ''?'' \<notin> set pre \<Longrightarrow> url_query (pre @ CHR ''?'' # q) = q"
proof -
  assume "CHR ''?'' \<notin> set pre"
  then have "dropWhile (\<lambda>c. c \<noteq> CHR ''?'') pre = []"
    by (auto simp add: dropWhile_eq_Nil_conv)
  then show ?thesis by (simp add: url_query_def dropWhile_append3)
qed

end
