(* ===== verification/Http.thy ===== *)
theory Http
  imports Auth UrlEncode
begin

text \<open>
  The effects the client performs, as explicit world passing. A client operation is a
  function from the world before the call to its result (a thrown error or a value)
  and the world after it. The world holds what the code reads and changes outside its
  own locals: the \<open>auth\<close> session, the clock read by \<open>new Date().getTime()\<close>, the
  identifiers \<open>ulid()\<close> returns, the console, and the network. The network is an
  oracle: the outcome of the \<open>n\<close>-th request sent is \<open>net n req\<close>, either a rejected
  \<open>fetch\<close> or a response with its status and its body as parsed JSON (\<open>None\<close> when
  the body is not JSON); every request sent is recorded in \<open>sent\<close>. Every fetch is
  taken to settle: a request that never completes is not modelled.
\<close>

datatype req_body = TextBody bytes | BlobBody bytes

record request_init =
  http_method :: bytes
  mode :: "bytes option"
  headers :: "(bytes \<times> bytes) list"
  body :: "req_body option"

type_synonym request = "bytes \<times> request_init"

record response =
  status :: nat
  json_body :: "jsval option"

datatype fetch_result = Rejected | Fulfilled response

datatype log_entry = LogValues "jsval list" | LogError js_error

record world =
  auth :: session
  now :: int
  net :: "nat \<Rightarrow> request \<Rightarrow> fetch_result"
  sent :: "request list"
  ulid_gen :: "nat \<Rightarrow> bytes"
  ulid_count :: nat
  console :: "log_entry list"

type_synonym 'a js = "world \<Rightarrow> (js_error + 'a) \<times> world"

section \<open>Sequencing, throwing and catching\<close>

definition js_return :: "'a \<Rightarrow> 'a js" where
  "js_return x w = (Inr x, w)"

definition js_throw :: "js_error \<Rightarrow> 'a js" where
  "js_throw e w = (Inl e, w)"

text \<open>\<open>await m\<close> followed by the rest of the function; a throw skips the rest.\<close>

definition js_bind :: "'a js \<Rightarrow> ('a \<Rightarrow> 'b js) \<Rightarrow> 'b js" where
  "js_bind m f w = (case m w of (Inl e, w') \<Rightarrow> (Inl e, w') | (Inr x, w') \<Rightarrow> f x w')"

text \<open>\<open>try { m } catch (e) { h(e) }\<close>.\<close>

definition js_catch :: "'a js \<Rightarrow> (js_error \<Rightarrow> 'a js) \<Rightarrow> 'a js" where
  "js_catch m h w = (case m w of (Inl e, w') \<Rightarrow> h e w' | (Inr x, w') \<Rightarrow> (Inr x, w'))"

text \<open>A pure computation that may throw, such as a property read.\<close>

definition js_lift :: "js_error + 'a \<Rightarrow> 'a js" where
  "js_lift r w = (r, w)"

section \<open>Primitive effects\<close>

definition fetch :: "bytes \<Rightarrow> request_init \<Rightarrow> response js" where
  "fetch u init w =
     (let w' = w\<lparr>sent := sent w @ [(u, init)]\<rparr>
      in case net w (length (sent w)) (u, init) of
           Rejected \<Rightarrow> (Inl (TypeError NetworkFailure), w')
         | Fulfilled r \<Rightarrow> (Inr r, w'))"

text \<open>\<open>fetch(url)\<close> without options: a plain GET.\<close>

definition get_init :: request_init where
  "get_init = \<lparr>http_method = ''GET'', mode = None, headers = [], body = None\<rparr>"

definition response_ok :: "response \<Rightarrow> bool" where
  "response_ok r = (200 \<le> status r \<and> status r \<le> 299)"

definition response_json :: "response \<Rightarrow> jsval js" where
  "response_json r = (case json_body r of None \<Rightarrow> js_throw SyntaxError | Some v \<Rightarrow> js_return v)"

definition console_log :: "jsval list \<Rightarrow> unit js" where
  "console_log vs w = (Inr (), w\<lparr>console := console w @ [LogValues vs]\<rparr>)"

definition console_log_error :: "js_error \<Rightarrow> unit js" where
  "console_log_error e w = (Inr (), w\<lparr>console := console w @ [LogError e]\<rparr>)"

definition date_now :: "int js" where
  "date_now w = (Inr (now w), w)"

definition ulid :: "bytes js" where
  "ulid w = (Inr (ulid_gen w (ulid_count w)), w\<lparr>ulid_count := Suc (ulid_count w)\<rparr>)"

definition auth_getCurrentToken :: "jsval js" where
  "auth_getCurrentToken w = (Inr (getCurrentToken (auth w)), w)"

definition auth_logIn :: "jsval \<Rightarrow> jsval \<Rightarrow> unit js" where
  "auth_logIn t a w = (Inr (), w\<lparr>auth := logIn t a (auth w)\<rparr>)"

text \<open>What a test of the client inspects: the \<open>Authorization\<close> headers of a request, and the
  requests a call sent.\<close>

definition authorization :: "request \<Rightarrow> bytes list" where
  "authorization req = map snd (filter (\<lambda>h. fst h = ''Authorization'') (headers (snd req)))"

definition new_requests :: "world \<Rightarrow> world \<Rightarrow> request list" where
  "new_requests w w' = drop (length (sent w)) (sent w')"

lemmas effect_defs [api_eval] =
  js_return_def js_throw_def js_bind_def js_catch_def js_lift_def fetch_def get_init_def
  response_ok_def response_json_def console_log_def console_log_error_def date_now_def
  ulid_def auth_getCurrentToken_def auth_logIn_def authorization_def new_requests_def

section \<open>Laws of sequencing\<close>

lemma js_bind_return [simp]: "js_bind (js_return x) f = f x"
  by (simp add: js_bind_def js_return_def fun_eq_iff)

lemma js_bind_throw [simp]: "js_bind (js_throw e) f = js_throw e"
  by (simp add: js_bind_def js_throw_def fun_eq_iff)

lemma js_bind_assoc: "js_bind (js_bind m f) g = js_bind m (\<lambda>x. js_bind (f x) g)"
  by (simp add: js_bind_def fun_eq_iff split: prod.split sum.split)

lemma js_bind_Inr:
  "m w = (Inr x, w') \<Longrightarrow> js_bind m f w = f x w'"
  by (simp add: js_bind_def)

lemma js_bind_Inl:
  "m w = (Inl e, w') \<Longrightarrow> js_bind m f w = (Inl e, w')"
  by (simp add: js_bind_def)

text \<open>What a response-handling step does, by the outcome of the fetch.\<close>

lemma fetch_Fulfilled:
  "net w (length (sent w)) (u, init) = Fulfilled r \<Longrightarrow>
   fetch u init w = (Inr r, w\<lparr>sent := sent w @ [(u, init)]\<rparr>)"
  by (simp add: fetch_def)

lemma fetch_Rejected:
  "net w (length (sent w)) (u, init) = Rejected \<Longrightarrow>
   fetch u init w = (Inl (TypeError NetworkFailure), w\<lparr>sent := sent w @ [(u, init)]\<rparr>)"
  by (simp add: fetch_def)

lemma fetch_sent: "sent (snd (fetch u init w)) = sent w @ [(u, init)]"
  by (simp add: fetch_def Let_def split: fetch_result.split)

lemma fetch_frame:
  "auth (snd (fetch u init w)) = auth w"
  "now (snd (fetch u init w)) = now w"
  "net (snd (fetch u init w)) = net w"
  by (simp_all add: fetch_def Let_def split: fetch_result.split)

end
