(* ===== verification/Api.thy ===== *)
theory Api
  imports Http
begin

text \<open>
  The operations of \<open>src/lib/api.js\<close>, one definition per exported function and one
  for the internal \<open>uploadImage\<close>, each a translation of the function's statements in
  order onto the effect layer of \<open>Http\<close>: \<open>await\<close> is \<open>js_bind\<close>, \<open>throw\<close> is
  \<open>js_throw\<close>, \<open>try\<close>/\<open>catch\<close> is \<open>js_catch\<close>. The helper \<open>searchParams\<close> is the
  object literal of \<open>searchProducts\<close> (lines 77 to 82) on its own.
\<close>

definition base_url :: bytes where
  "base_url = ''https://boiling-wildwood-80394.herokuapp.com''"

definition images_url :: bytes where
  "images_url = ''https://final-project-web-dev.s3.amazonaws.com/images/''"

text \<open>\<open>"Bearer " + token\<close>.\<close>

definition bearer :: "jsval \<Rightarrow> bytes" where
  "bearer tok = ''Bearer '' @ js_to_string tok"

section \<open>uploadImage (lines 148 to 171)\<close>

definition uploadImage :: "bytes \<Rightarrow> jsval js" where
  "uploadImage file =
     js_bind ulid (\<lambda>uid.
     let filename = uid @ ''.png'';
         url = url_set_search (base_url @ ''/s3-signed-url'')
                 (form_serialize (search_params_of [(''imageName'', JStr filename)]))
     in js_bind (fetch url get_init) (\<lambda>response.
        js_bind (response_json response) (\<lambda>parsed.
        js_bind (js_lift (get_prop parsed ''url'')) (\<lambda>presignedUploadUrl.
        js_catch
          (js_bind (fetch (js_to_string presignedUploadUrl)
                      \<lparr>http_method = ''PUT'', mode = None, headers = [(''Content-Type'', ''image/*'')],
                       body = Some (BlobBody file)\<rparr>) (\<lambda>_.
           js_return (JStr (images_url @ filename))))
          (\<lambda>e. js_bind (console_log_error e) (\<lambda>_. js_return JUndefined))))))"

section \<open>createProduct (lines 7 to 25)\<close>

text \<open>\<open>const payload = { ...productObject, imageUrl }\<close>.\<close>

definition product_payload :: "jsval \<Rightarrow> jsval \<Rightarrow> props" where
  "product_payload productObject imageUrl = obj_put ''imageUrl'' imageUrl (obj_copy [] productObject)"

definition createProduct :: "jsval \<Rightarrow> bytes \<Rightarrow> unit js" where
  "createProduct productObject img =
     js_bind (uploadImage img) (\<lambda>imageUrl.
     let payload = product_payload productObject imageUrl
     in js_bind auth_getCurrentToken (\<lambda>tok.
        let params = \<lparr>http_method = ''POST'', mode = Some ''cors'',
                      headers = [(''Content-Type'', ''application/json''), (''Authorization'', bearer tok)],
                      body = map_option TextBody (json_stringify (JObj payload))\<rparr>
        in js_bind (fetch (base_url @ ''/products'') params) (\<lambda>response.
           if \<not> response_ok response then js_throw (Error ''Could not create product'')
           else js_return ())))"

section \<open>createOrder (lines 27 to 45)\<close>

text \<open>\<open>const payload = { ...values, timestamp: new Date().getTime() }\<close>.\<close>

definition order_payload :: "jsval \<Rightarrow> int \<Rightarrow> props" where
  "order_payload values t = obj_put ''timestamp'' (JNum (num_of_int t)) (obj_copy [] values)"

definition createOrder :: "jsval \<Rightarrow> unit js" where
  "createOrder values =
     js_bind auth_getCurrentToken (\<lambda>tok.
     js_bind date_now (\<lambda>t.
     let payload = order_payload values t;
         params = \<lparr>http_method = ''POST'', mode = None,
                   headers = [(''Content-Type'', ''application/json''), (''Authorization'', bearer tok)],
                   body = map_option TextBody (json_stringify (JObj payload))\<rparr>
     in js_bind (fetch (base_url @ ''/orders'') params) (\<lambda>response.
        if \<not> response_ok response then js_throw (Error ''Could not create order'')
        else js_return ())))"

section \<open>getOrders (lines 47 to 61)\<close>

definition getOrders :: "jsval js" where
  "getOrders =
     js_bind auth_getCurrentToken (\<lambda>tok.
     let params = \<lparr>http_method = ''GET'', mode = None,
                   headers = [(''Content-Type'', ''application/json''), (''Authorization'', bearer tok)],
                   body = None\<rparr>
     in js_bind (fetch (base_url @ ''/orders'') params) (\<lambda>response.
        if \<not> response_ok response then js_throw (Error ''Could not create order'')
        else response_json response))"

section \<open>getTopProducts (lines 63 to 73)\<close>

definition getTopProducts :: "jsval js" where
  "getTopProducts =
     (let url = url_set_search (base_url @ ''/products'')
                  (form_serialize (search_params_of [(''newest'', JStr ''true'')]))
      in js_bind (fetch url get_init) (\<lambda>response.
         if \<not> response_ok response then js_throw (Error ''Could not fetch products'')
         else response_json response))"

section \<open>searchProducts (lines 75 to 90)\<close>

text \<open>
  Each \<open>...(!!x && { k: v })\<close> spreads either \<open>false\<close>, which has no own
  properties, or the one-property object.
\<close>

definition searchParams :: "jsval \<Rightarrow> jsval \<Rightarrow> jsval \<Rightarrow> jsval \<Rightarrow> props" where
  "searchParams name category minRange maxRange =
     obj_copy (obj_copy (obj_copy (obj_copy []
       (if js_truthy name then JObj [(''name'', name)] else JBool False))
       (if js_truthy category then JObj [(''category'', category)] else JBool False))
       (if js_truthy minRange
        then JObj [(''minRange'', JNum (num_mul (js_to_number minRange) (num_of_int 100)))]
        else JBool False))
       (if js_truthy maxRange
        then JObj [(''maxRange'', JNum (num_mul (js_to_number maxRange) (num_of_int 100)))]
        else JBool False)"

definition searchProducts :: "jsval \<Rightarrow> jsval \<Rightarrow> jsval \<Rightarrow> jsval \<Rightarrow> jsval js" where
  "searchProducts name category minRange maxRange =
     (let url = url_set_search (base_url @ ''/products'')
                  (form_serialize (search_params_of (searchParams name category minRange maxRange)))
      in js_bind (fetch url get_init) (\<lambda>response.
         if \<not> response_ok response then js_throw (Error ''Could not fetch products'')
         else response_json response))"

section \<open>deleteProduct (lines 92 to 105)\<close>

definition deleteProduct :: "jsval \<Rightarrow> unit js" where
  "deleteProduct productId =
     js_bind auth_getCurrentToken (\<lambda>tok.
     js_bind (fetch (base_url @ ''/products/'' @ js_to_string productId)
                \<lparr>http_method = ''DELETE'', mode = Some ''cors'',
                 headers = [(''Authorization'', bearer tok)], body = None\<rparr>) (\<lambda>response.
     if \<not> response_ok response then js_throw (Error ''Could not delete product'')
     else js_return ()))"

section \<open>register (lines 107 to 120)\<close>

definition register :: "jsval \<Rightarrow> unit js" where
  "register values =
     (let params = \<lparr>http_method = ''POST'', mode = Some ''cors'',
                    headers = [(''Content-Type'', ''application/json'')],
                    body = map_option TextBody (json_stringify values)\<rparr>
      in js_bind (fetch (base_url @ ''/users'') params) (\<lambda>response.
         if \<not> response_ok response then js_throw (Error ''Could not register user'')
         else js_return ()))"

section \<open>login (lines 122 to 140)\<close>

definition login :: "jsval \<Rightarrow> jsval \<Rightarrow> unit js" where
  "login email password =
     (let params = \<lparr>http_method = ''POST'', mode = Some ''cors'',
                    headers = [(''Content-Type'', ''application/json'')],
                    body = map_option TextBody
                             (json_stringify (JObj [(''email'', email), (''password'', password)]))\<rparr>
      in js_bind (fetch (base_url @ ''/login'') params) (\<lambda>response.
         js_bind (response_json response) (\<lambda>body.
         js_bind (console_log [body]) (\<lambda>_.
         js_bind (js_lift (get_prop body ''token'')) (\<lambda>tok.
         js_bind (js_lift (get_prop body ''isAdmin'')) (\<lambda>isAdmin.
         js_bind (console_log [tok, isAdmin]) (\<lambda>_.
         js_bind (auth_logIn tok isAdmin) (\<lambda>_.
         if \<not> response_ok response then js_throw (Error ''Could not log in'')
         else js_return ()))))))))"

end
