(* ===== verification/ApiProps.thy ===== *)
theory ApiProps
  imports Api
begin

text \<open>
  The properties of the operations of \<open>src/lib/api.js\<close>: the requests each call
  sends (method, URL, headers, body), where the bearer token comes from, what each call
  returns or throws on every outcome of its fetches, and what it leaves unchanged. A
  witness runs a theorem on a concrete world built by \<open>test_world\<close>, whose network
  answers every request by the given function.
\<close>

definition test_world :: "(nat \<Rightarrow> request \<Rightarrow> fetch_result) \<Rightarrow> world" where
  "test_world nt =
     \<lparr>auth = logged_out, now = 1700000000000, net = nt, sent = [],
      ulid_gen = (\<lambda>n. ''01ARZ3NDEKTSV4RRFFQ69G5FAV''), ulid_count = 0, console = []\<rparr>"

text \<open>The two requests of uploadImage: the signed-URL request for the generated file name,
  and the PUT of the image to the signed URL.\<close>

definition upload_url_request :: "world \<Rightarrow> request" where
  "upload_url_request w =
     (url_set_search (base_url @ ''/s3-signed-url'')
        (form_serialize (search_params_of [(''imageName'', JStr (ulid_gen w (ulid_count w) @ ''.png''))])),
      get_init)"

definition put_init :: "bytes \<Rightarrow> request_init" where
  "put_init img =
     \<lparr>http_method = ''PUT'', mode = None, headers = [(''Content-Type'', ''image/*'')],
      body = Some (BlobBody img)\<rparr>"

text \<open>The request login sends (lines 123 to 131).\<close>

definition login_request :: "jsval \<Rightarrow> jsval \<Rightarrow> request" where
  "login_request e pw =
     (base_url @ ''/login'',
      \<lparr>http_method = ''POST'', mode = Some ''cors'',
       headers = [(''Content-Type'', ''application/json'')],
       body = map_option TextBody (json_stringify (JObj [(''email'', e), (''password'', pw)]))\<rparr>)"

section \<open>Helper facts\<close>

lemma login_sent: "sent (snd (login e pw w)) = sent w @ [login_request e pw]"
  by (simp add: login_def login_request_def api_eval Let_def
           split: fetch_result.split option.split sum.split)

lemma uploadImage_outcome:
  "(\<exists>e. fst (uploadImage img w) = Inl e \<and>
        sent (snd (uploadImage img w)) = sent w @ [upload_url_request w]) \<or>
   (\<exists>u iu. fst (uploadImage img w) = Inr iu \<and>
        sent (snd (uploadImage img w)) = sent w @ [upload_url_request w, (u, put_init img)] \<and>
        auth (snd (uploadImage img w)) = auth w)"
  by (simp add: uploadImage_def upload_url_request_def put_init_def api_eval Let_def
           split: fetch_result.split option.split sum.split)

lemma uploadImage_put_rejected_run:
  assumes "net w (length (sent w)) (upload_url_request w) = Fulfilled r"
    and "json_body r = Some (JObj ps)" and "map_of ps ''url'' = Some (JStr u)"
    and "net w (Suc (length (sent w))) (u, put_init img) = Rejected"
  shows "uploadImage img w =
    (Inr JUndefined, w\<lparr>ulid_count := Suc (ulid_count w),
                        sent := sent w @ [upload_url_request w, (u, put_init img)],
                        console := console w @ [LogError (TypeError NetworkFailure)]\<rparr>)"
  using assms
  by (simp add: uploadImage_def upload_url_request_def put_init_def api_eval Let_def)

lemma searchProducts_sent:
  "sent (snd (searchProducts n c mi ma w)) =
     sent w @ [(url_set_search (base_url @ ''/products'')
                 (form_serialize (search_params_of (searchParams n c mi ma))), get_init)]"
  by (simp add: searchProducts_def api_eval Let_def split: fetch_result.split option.split)

lemma base_url_no_query: "CHR ''?'' \<notin> set base_url"
  by (simp add: base_url_def)

lemma server_reads_query:
  "CHR ''?'' \<notin> set s \<Longrightarrow>
   form_parse (url_query (url_set_search (base_url @ s) (form_serialize ps))) = ps"
  by (simp add: url_query_set_search base_url_no_query form_parse_serialize)

section \<open>The query encoder of searchProducts\<close>

text \<open>
  C1. The search filters: \<open>searchParams\<close> holds, in the order name, category,
  minRange, maxRange, exactly the filters whose argument is truthy; name and category
  are passed as they are, minRange and maxRange are \<open>Number(x) * 100\<close>.
\<close>

theorem searchParams_spec:
  "searchParams n c mi ma =
     (if js_truthy n then [(''name'', n)] else []) @
     (if js_truthy c then [(''category'', c)] else []) @
     (if js_truthy mi then [(''minRange'', JNum (num_mul (js_to_number mi) (num_of_int 100)))] else []) @
     (if js_truthy ma then [(''maxRange'', JNum (num_mul (js_to_number ma) (num_of_int 100)))] else [])"
  by (simp add: searchParams_def obj_copy_def obj_put_def is_array_index_def is_digit_def)

text \<open>
  C2. searchProducts sends exactly one request, a plain GET, and the backend, parsing
  the query of its URL as a form-urlencoded string, reads back exactly the name-value
  pairs of the filter object, each value converted to its string.
\<close>

theorem searchProducts_sends_filters:
  "\<exists>u. new_requests w (snd (searchProducts n c mi ma w)) = [(u, get_init)] \<and>
       form_parse (url_query u) = search_params_of (searchParams n c mi ma)"
  by (simp add: new_requests_def searchProducts_sent server_reads_query)

text \<open>
  C3. The URL searchProducts requests: \<open>/products\<close> with no query at all when no filter
  is truthy (the search setter drops the \<open>?\<close> of an empty query), and otherwise
  \<open>/products?\<close> followed by the form-urlencoded filter pairs, unchanged by the setter.
\<close>

theorem searchProducts_url:
  "new_requests w (snd (searchProducts n c mi ma w)) =
     [(if searchParams n c mi ma = [] then base_url @ ''/products''
       else base_url @ ''/products?'' @ form_serialize (search_params_of (searchParams n c mi ma)),
       get_init)]"
  by (simp add: new_requests_def searchProducts_sent url_set_search_serialize search_params_of_def)

section \<open>Authorization headers\<close>

text \<open>
  C4. Every authorized single-request operation (getOrders, createOrder, deleteProduct)
  sends exactly one \<open>Authorization\<close> header, \<open>"Bearer "\<close> followed by the token the
  session holds when the call runs.
\<close>

theorem authorized_requests_bearer:
  "authorization (last (sent (snd (getOrders w)))) = [bearer (getCurrentToken (auth w))] \<and>
   authorization (last (sent (snd (createOrder v w)))) = [bearer (getCurrentToken (auth w))] \<and>
   authorization (last (sent (snd (deleteProduct p w)))) = [bearer (getCurrentToken (auth w))]"
  by (simp add: getOrders_def createOrder_def deleteProduct_def api_eval Let_def
           split: fetch_result.split option.split)

text \<open>
  C5. The requests of createProduct, by the outcome of each. It first requests the
  signed upload URL for the generated file name. If that fetch is rejected, its body is
  not JSON, or the body has no readable \<open>url\<close>, nothing else is sent. Otherwise it
  PUTs the image to that \<open>url\<close> (as a string) and then POSTs to \<open>/products\<close> the
  product payload with the bearer of the session token. The payload's \<open>imageUrl\<close> is
  the public URL of the generated name when the PUT settled, and \<open>undefined\<close> when
  it was rejected.
\<close>

theorem createProduct_requests:
  "new_requests w (snd (createProduct p img w)) =
     (case net w (length (sent w)) (upload_url_request w) of
        Fulfilled r \<Rightarrow>
          (case json_body r of
             Some v \<Rightarrow>
               (case get_prop v ''url'' of
                  Inr u \<Rightarrow>
                    [upload_url_request w, (js_to_string u, put_init img),
                     (base_url @ ''/products'',
                      \<lparr>http_method = ''POST'', mode = Some ''cors'',
                       headers = [(''Content-Type'', ''application/json''),
                                  (''Authorization'', bearer (getCurrentToken (auth w)))],
                       body = map_option TextBody (json_stringify (JObj (product_payload p
                         (case net w (Suc (length (sent w))) (js_to_string u, put_init img) of
                            Rejected \<Rightarrow> JUndefined
                          | Fulfilled _ \<Rightarrow> JStr (images_url @ ulid_gen w (ulid_count w) @ ''.png'')))))\<rparr>)]
                | Inl _ \<Rightarrow> [upload_url_request w])
           | None \<Rightarrow> [upload_url_request w])
      | Rejected \<Rightarrow> [upload_url_request w])"
  by (simp add: createProduct_def uploadImage_def upload_url_request_def put_init_def api_eval Let_def
           split: fetch_result.split option.split sum.split)

text \<open>
  C19. The unauthorized operations (getTopProducts, searchProducts, register, login)
  and both requests of the upload helper send no Authorization header.
\<close>

theorem unauthorized_no_bearer:
  "list_all (\<lambda>req. authorization req = []) (new_requests w (snd (getTopProducts w))) \<and>
   list_all (\<lambda>req. authorization req = []) (new_requests w (snd (searchProducts n c mi ma w))) \<and>
   list_all (\<lambda>req. authorization req = []) (new_requests w (snd (register v w))) \<and>
   list_all (\<lambda>req. authorization req = []) (new_requests w (snd (login e pw w))) \<and>
   list_all (\<lambda>req. authorization req = []) (new_requests w (snd (uploadImage img w)))"
proof (intro conjI)
  show "list_all (\<lambda>req. authorization req = []) (new_requests w (snd (getTopProducts w)))"
    by (simp add: getTopProducts_def api_eval Let_def split: fetch_result.split option.split)
  show "list_all (\<lambda>req. authorization req = []) (new_requests w (snd (searchProducts n c mi ma w)))"
    by (simp add: new_requests_def searchProducts_sent authorization_def get_init_def)
  show "list_all (\<lambda>req. authorization req = []) (new_requests w (snd (register v w)))"
    by (simp add: register_def api_eval Let_def split: fetch_result.split)
  show "list_all (\<lambda>req. authorization req = []) (new_requests w (snd (login e pw w)))"
    by (simp add: new_requests_def login_sent login_request_def authorization_def)
  show "list_all (\<lambda>req. authorization req = []) (new_requests w (snd (uploadImage img w)))"
    using uploadImage_outcome [of img w]
    by (auto simp add: new_requests_def upload_url_request_def put_init_def authorization_def
             get_init_def)
qed

text \<open>
  C20. deleteProduct puts the product id into the path as it is, without encoding:
  an id containing \<open>?\<close> sends a DELETE whose query, for the server, is the rest of
  the id.
\<close>

theorem deleteProduct_id_in_url:
  assumes "CHR ''?'' \<notin> set i"
  shows "new_requests w (snd (deleteProduct (JStr (i @ ''?'' @ q)) w)) =
           [(base_url @ ''/products/'' @ i @ ''?'' @ q,
             \<lparr>http_method = ''DELETE'', mode = Some ''cors'',
              headers = [(''Authorization'', bearer (getCurrentToken (auth w)))], body = None\<rparr>)] \<and>
         url_query (base_url @ ''/products/'' @ i @ ''?'' @ q) = q"
proof
  show "new_requests w (snd (deleteProduct (JStr (i @ ''?'' @ q)) w)) =
           [(base_url @ ''/products/'' @ i @ ''?'' @ q,
             \<lparr>http_method = ''DELETE'', mode = Some ''cors'',
              headers = [(''Authorization'', bearer (getCurrentToken (auth w)))], body = None\<rparr>)]"
    by (simp add: deleteProduct_def api_eval Let_def split: fetch_result.split)
  have "CHR ''?'' \<notin> set (base_url @ ''/products/'' @ i)"
    using assms base_url_no_query by simp
  then show "url_query (base_url @ ''/products/'' @ i @ ''?'' @ q) = q"
    using url_query_first [of "base_url @ ''/products/'' @ i" q] by simp
qed

theorem deleteProduct_id_in_url_witness:
  "url_query (fst (last (new_requests (test_world (\<lambda>n r. Rejected))
      (snd (deleteProduct (JStr ''7?x=1'') (test_world (\<lambda>n r. Rejected))))))) = ''x=1''"
  using deleteProduct_id_in_url [of "''7''" "test_world (\<lambda>n r. Rejected)" "''x=1''"]
  by simp

text \<open>
  C17. The requests with no caller-dependent URL: getTopProducts sends one plain GET to
  \<open>/products?newest=true\<close>; register one POST to \<open>/users\<close> with CORS mode, a JSON
  content type, no bearer and \<open>JSON.stringify(values)\<close> as body; login one POST of
  \<open>login_request\<close> (lines 123 to 131).
\<close>

theorem fixed_requests:
  "new_requests w (snd (getTopProducts w)) = [(base_url @ ''/products?newest=true'', get_init)] \<and>
   new_requests w (snd (register v w)) =
     [(base_url @ ''/users'',
       \<lparr>http_method = ''POST'', mode = Some ''cors'', headers = [(''Content-Type'', ''application/json'')],
        body = map_option TextBody (json_stringify v)\<rparr>)] \<and>
   new_requests w (snd (login e pw w)) = [login_request e pw]"
proof (intro conjI)
  have "form_serialize (search_params_of [(''newest'', JStr ''true'')]) = ''newest=true''"
    by code_simp
  with url_set_search_serialize [of "base_url @ ''/products''" "search_params_of [(''newest'', JStr ''true'')]"]
  have "url_set_search (base_url @ ''/products'') (form_serialize (search_params_of [(''newest'', JStr ''true'')]))
               = base_url @ ''/products?newest=true''"
    by (simp add: search_params_of_def)
  then show "new_requests w (snd (getTopProducts w)) = [(base_url @ ''/products?newest=true'', get_init)]"
    by (simp add: getTopProducts_def api_eval Let_def url_set_search_serialize
             split: fetch_result.split option.split)
  show "new_requests w (snd (register v w)) =
     [(base_url @ ''/users'',
       \<lparr>http_method = ''POST'', mode = Some ''cors'', headers = [(''Content-Type'', ''application/json'')],
        body = map_option TextBody (json_stringify v)\<rparr>)]"
    by (simp add: register_def api_eval Let_def split: fetch_result.split)
  show "new_requests w (snd (login e pw w)) = [login_request e pw]"
    by (simp add: new_requests_def login_sent)
qed

section \<open>Payloads\<close>

text \<open>
  C7. createOrder posts the caller's object with a \<open>timestamp\<close> member equal to the
  clock at the call (milliseconds); every other member is passed through unchanged.
\<close>

theorem createOrder_timestamp:
  assumes "distinct (map fst ps)"
  shows "\<exists>q. body (snd (last (sent (snd (createOrder (JObj ps) w))))) =
              map_option TextBody (json_stringify (JObj q)) \<and>
            map_of q = (map_of ps)(''timestamp'' \<mapsto> JNum (num_of_int (now w)))"
proof -
  have "body (snd (last (sent (snd (createOrder (JObj ps) w))))) =
          map_option TextBody (json_stringify (JObj (order_payload (JObj ps) (now w))))"
    by (simp add: createOrder_def api_eval Let_def split: fetch_result.split)
  moreover have "map_of (order_payload (JObj ps) (now w)) =
                   (map_of ps)(''timestamp'' \<mapsto> JNum (num_of_int (now w)))"
    using assms by (simp add: order_payload_def map_of_obj_copy)
  ultimately show ?thesis by blast
qed

theorem createOrder_timestamp_witness:
  "distinct (map fst [(''item'', JStr ''x'')]) \<and>
   (\<exists>q. body (snd (last (sent (snd (createOrder (JObj [(''item'', JStr ''x'')])
                     (test_world (\<lambda>n r. Rejected))))))) =
          map_option TextBody (json_stringify (JObj q)) \<and>
        map_of q = (map_of [(''item'', JStr ''x'')])(''timestamp'' \<mapsto>
                      JNum (num_of_int (now (test_world (\<lambda>n r. Rejected))))))"
  using createOrder_timestamp [of "[(''item'', JStr ''x'')]" "test_world (\<lambda>n r. Rejected)"]
  by simp

text \<open>
  C21. The product payload \<open>{ ...productObject, imageUrl }\<close> holds every member of the
  caller's object unchanged and \<open>imageUrl\<close> set to the uploaded image's URL, which
  overrides an \<open>imageUrl\<close> the caller's object had.
\<close>

theorem product_payload_members:
  assumes "distinct (map fst ps)"
  shows "map_of (product_payload (JObj ps) iu) = (map_of ps)(''imageUrl'' \<mapsto> iu)"
  using assms by (simp add: product_payload_def map_of_obj_copy)

theorem product_payload_members_witness:
  "distinct (map fst [(''name'', JStr ''mug''), (''imageUrl'', JStr ''old'')]) \<and>
   map_of (product_payload (JObj [(''name'', JStr ''mug''), (''imageUrl'', JStr ''old'')]) (JStr ''new''))
     ''imageUrl'' = Some (JStr ''new'')"
  using product_payload_members [of "[(''name'', JStr ''mug''), (''imageUrl'', JStr ''old'')]" "JStr ''new''"]
  by simp

section \<open>Errors\<close>

text \<open>
  C8. Against a backend that answers every request with the same non-2xx response whose
  body is a JSON object, every operation throws \<open>Error\<close> with its fixed message. The
  message of getOrders is the one of createOrder, \<open>"Could not create order"\<close>.
\<close>

theorem non_ok_fixed_messages:
  assumes "net w = (\<lambda>n req. Fulfilled resp)" and "\<not> response_ok resp"
    and "json_body resp = Some (JObj ps)"
  shows "fst (createProduct p img w) = Inl (Error ''Could not create product'') \<and>
         fst (createOrder v w) = Inl (Error ''Could not create order'') \<and>
         fst (getOrders w) = Inl (Error ''Could not create order'') \<and>
         fst (getTopProducts w) = Inl (Error ''Could not fetch products'') \<and>
         fst (searchProducts n c mi ma w) = Inl (Error ''Could not fetch products'') \<and>
         fst (deleteProduct p w) = Inl (Error ''Could not delete product'') \<and>
         fst (register v w) = Inl (Error ''Could not register user'') \<and>
         fst (login e pw w) = Inl (Error ''Could not log in'')"
  using assms
  by (simp add: createProduct_def uploadImage_def createOrder_def getOrders_def getTopProducts_def
      searchProducts_def deleteProduct_def register_def login_def api_eval Let_def
      split: fetch_result.split option.split)

theorem non_ok_fixed_messages_witness:
  "fst (getOrders (test_world (\<lambda>n r. Fulfilled \<lparr>status = 500, json_body = Some (JObj [])\<rparr>)))
     = Inl (Error ''Could not create order'') \<and>
   fst (login JNull JNull (test_world (\<lambda>n r. Fulfilled \<lparr>status = 500, json_body = Some (JObj [])\<rparr>)))
     = Inl (Error ''Could not log in'')"
  using non_ok_fixed_messages
    [of "test_world (\<lambda>n r. Fulfilled \<lparr>status = 500, json_body = Some (JObj [])\<rparr>)"
        "\<lparr>status = 500, json_body = Some (JObj [])\<rparr>" "[]" JNull "[]" JNull JNull JNull JNull JNull JNull JNull]
  by (simp add: test_world_def response_ok_def)

text \<open>
  C18. A request the network rejects makes every operation throw the TypeError of
  \<open>fetch\<close>, not the operation's own message: the client has no error of its own for a
  network failure.
\<close>

theorem network_failure_type_error:
  assumes "net w = (\<lambda>n req. Rejected)"
  shows "fst (createProduct p img w) = Inl (TypeError NetworkFailure) \<and>
         fst (createOrder v w) = Inl (TypeError NetworkFailure) \<and>
         fst (getOrders w) = Inl (TypeError NetworkFailure) \<and>
         fst (getTopProducts w) = Inl (TypeError NetworkFailure) \<and>
         fst (searchProducts n c mi ma w) = Inl (TypeError NetworkFailure) \<and>
         fst (deleteProduct p w) = Inl (TypeError NetworkFailure) \<and>
         fst (register v w) = Inl (TypeError NetworkFailure) \<and>
         fst (login e pw w) = Inl (TypeError NetworkFailure)"
proof (intro conjI)
  show "fst (createProduct p img w) = Inl (TypeError NetworkFailure)"
    using assms by (simp add: createProduct_def uploadImage_def api_eval Let_def)
  show "fst (createOrder v w) = Inl (TypeError NetworkFailure)"
    using assms by (simp add: createOrder_def api_eval Let_def)
  show "fst (getOrders w) = Inl (TypeError NetworkFailure)"
    using assms by (simp add: getOrders_def api_eval Let_def)
  show "fst (getTopProducts w) = Inl (TypeError NetworkFailure)"
    using assms by (simp add: getTopProducts_def api_eval Let_def)
  show "fst (searchProducts n c mi ma w) = Inl (TypeError NetworkFailure)"
    using assms by (simp add: searchProducts_def api_eval Let_def)
  show "fst (deleteProduct p w) = Inl (TypeError NetworkFailure)"
    using assms by (simp add: deleteProduct_def api_eval Let_def)
  show "fst (register v w) = Inl (TypeError NetworkFailure)"
    using assms by (simp add: register_def api_eval Let_def)
  show "fst (login e pw w) = Inl (TypeError NetworkFailure)"
    using assms by (simp add: login_def api_eval Let_def)
qed

theorem network_failure_type_error_witness:
  "fst (getOrders (test_world (\<lambda>n r. Rejected))) = Inl (TypeError NetworkFailure) \<and>
   fst (login JNull JNull (test_world (\<lambda>n r. Rejected))) = Inl (TypeError NetworkFailure)"
  using network_failure_type_error
    [of "test_world (\<lambda>n r. Rejected)" JNull "[]" JNull JNull JNull JNull JNull JNull JNull]
  by (simp add: test_world_def)

section \<open>Success paths and response bodies\<close>

text \<open>
  C22. Against a backend that answers every request with the same 2xx response whose
  body is a JSON object, every operation completes: the reading operations return the
  body, the others return nothing.
\<close>

theorem ok_results:
  assumes "net w = (\<lambda>n req. Fulfilled r)" and "response_ok r" and "json_body r = Some (JObj ps)"
  shows "fst (createProduct p img w) = Inr () \<and>
         fst (createOrder v w) = Inr () \<and>
         fst (getOrders w) = Inr (JObj ps) \<and>
         fst (getTopProducts w) = Inr (JObj ps) \<and>
         fst (searchProducts n c mi ma w) = Inr (JObj ps) \<and>
         fst (deleteProduct p w) = Inr () \<and>
         fst (register v w) = Inr () \<and>
         fst (login e pw w) = Inr ()"
proof (intro conjI)
  show "fst (createProduct p img w) = Inr ()"
    using assms by (simp add: createProduct_def uploadImage_def api_eval Let_def split: option.split)
  show "fst (createOrder v w) = Inr ()"
    using assms by (simp add: createOrder_def api_eval Let_def)
  show "fst (getOrders w) = Inr (JObj ps)"
    using assms by (simp add: getOrders_def api_eval Let_def)
  show "fst (getTopProducts w) = Inr (JObj ps)"
    using assms by (simp add: getTopProducts_def api_eval Let_def)
  show "fst (searchProducts n c mi ma w) = Inr (JObj ps)"
    using assms by (simp add: searchProducts_def api_eval Let_def)
  show "fst (deleteProduct p w) = Inr ()"
    using assms by (simp add: deleteProduct_def api_eval Let_def)
  show "fst (register v w) = Inr ()"
    using assms by (simp add: register_def api_eval Let_def)
  show "fst (login e pw w) = Inr ()"
    using assms by (simp add: login_def api_eval Let_def)
qed

theorem ok_results_witness:
  "fst (getOrders (test_world (\<lambda>n req. Fulfilled \<lparr>status = 200, json_body = Some (JObj [(''id'', JNum (Fin 1 0))])\<rparr>)))
     = Inr (JObj [(''id'', JNum (Fin 1 0))]) \<and>
   fst (createProduct (JObj []) ''IMG''
          (test_world (\<lambda>n req. Fulfilled \<lparr>status = 200, json_body = Some (JObj [(''id'', JNum (Fin 1 0))])\<rparr>)))
     = Inr ()"
  using ok_results
    [of "test_world (\<lambda>n req. Fulfilled \<lparr>status = 200, json_body = Some (JObj [(''id'', JNum (Fin 1 0))])\<rparr>)"
        "\<lparr>status = 200, json_body = Some (JObj [(''id'', JNum (Fin 1 0))])\<rparr>" "[(''id'', JNum (Fin 1 0))]"
        "JObj []" "''IMG''" JNull JNull JNull JNull JNull JNull JNull]
  by (simp add: test_world_def response_ok_def)

text \<open>
  C23. A 2xx response whose body is not JSON (an empty 204 reply, say) makes the
  operations that read the body (getOrders, getTopProducts, searchProducts, login, and
  createProduct through its signed-URL request) throw the parse error, while createOrder,
  deleteProduct and register, which never read it, complete.
\<close>

theorem ok_non_json_body:
  assumes "net w = (\<lambda>n req. Fulfilled r)" and "response_ok r" and "json_body r = None"
  shows "fst (getOrders w) = Inl SyntaxError \<and>
         fst (getTopProducts w) = Inl SyntaxError \<and>
         fst (searchProducts n c mi ma w) = Inl SyntaxError \<and>
         fst (login e pw w) = Inl SyntaxError \<and>
         fst (createProduct p img w) = Inl SyntaxError \<and>
         fst (createOrder v w) = Inr () \<and>
         fst (deleteProduct p w) = Inr () \<and>
         fst (register v w) = Inr ()"
proof (intro conjI)
  show "fst (getOrders w) = Inl SyntaxError"
    using assms by (simp add: getOrders_def api_eval Let_def)
  show "fst (getTopProducts w) = Inl SyntaxError"
    using assms by (simp add: getTopProducts_def api_eval Let_def)
  show "fst (searchProducts n c mi ma w) = Inl SyntaxError"
    using assms by (simp add: searchProducts_def api_eval Let_def)
  show "fst (login e pw w) = Inl SyntaxError"
    using assms by (simp add: login_def api_eval Let_def)
  show "fst (createProduct p img w) = Inl SyntaxError"
    using assms by (simp add: createProduct_def uploadImage_def api_eval Let_def)
  show "fst (createOrder v w) = Inr ()"
    using assms by (simp add: createOrder_def api_eval Let_def)
  show "fst (deleteProduct p w) = Inr ()"
    using assms by (simp add: deleteProduct_def api_eval Let_def)
  show "fst (register v w) = Inr ()"
    using assms by (simp add: register_def api_eval Let_def)
qed

theorem ok_non_json_body_witness:
  "fst (getTopProducts (test_world (\<lambda>n req. Fulfilled \<lparr>status = 204, json_body = None\<rparr>))) = Inl SyntaxError \<and>
   fst (deleteProduct (JStr ''7'') (test_world (\<lambda>n req. Fulfilled \<lparr>status = 204, json_body = None\<rparr>))) = Inr ()"
  using ok_non_json_body
    [of "test_world (\<lambda>n req. Fulfilled \<lparr>status = 204, json_body = None\<rparr>)"
        "\<lparr>status = 204, json_body = None\<rparr>" JNull JNull JNull JNull JNull JNull "JStr ''7''" "''IMG''" JNull]
  by (simp add: test_world_def response_ok_def)

section \<open>Login\<close>

text \<open>
  C9. login stores the token and admin flag of the response body in the session before it
  looks at the status: on a non-2xx response whose body holds a token, it throws
  \<open>"Could not log in"\<close> and the session afterwards holds that token.
\<close>

theorem login_session_before_status:
  assumes "\<forall>req. net w (length (sent w)) req = Fulfilled r" and "\<not> response_ok r"
    and "json_body r = Some (JObj ps)"
    and "map_of ps ''token'' = Some t" and "map_of ps ''isAdmin'' = Some a"
  shows "fst (login e pw w) = Inl (Error ''Could not log in'') \<and>
         auth (snd (login e pw w)) = logIn t a (auth w)"
  using assms by (simp add: login_def api_eval Let_def)

theorem login_session_before_status_witness:
  "fst (login (JStr ''a@b.c'') (JStr ''pw'') (test_world (\<lambda>n req. Fulfilled \<lparr>status = 401,
      json_body = Some (JObj [(''token'', JStr ''T9''), (''isAdmin'', JBool True)])\<rparr>)))
     = Inl (Error ''Could not log in'') \<and>
   auth (snd (login (JStr ''a@b.c'') (JStr ''pw'') (test_world (\<lambda>n req. Fulfilled \<lparr>status = 401,
      json_body = Some (JObj [(''token'', JStr ''T9''), (''isAdmin'', JBool True)])\<rparr>))))
     = logIn (JStr ''T9'') (JBool True) logged_out"
  using login_session_before_status
    [of "test_world (\<lambda>n req. Fulfilled \<lparr>status = 401,
           json_body = Some (JObj [(''token'', JStr ''T9''), (''isAdmin'', JBool True)])\<rparr>)"
        "\<lparr>status = 401, json_body = Some (JObj [(''token'', JStr ''T9''), (''isAdmin'', JBool True)])\<rparr>"
        "[(''token'', JStr ''T9''), (''isAdmin'', JBool True)]" "JStr ''T9''" "JBool True"
        "JStr ''a@b.c''" "JStr ''pw''"]
  by (simp add: test_world_def response_ok_def)

text \<open>
  C10. When the login response body is not JSON, or is JSON \<open>null\<close>, login throws the
  parse error (SyntaxError) or the property-read error (TypeError), not its own message,
  whatever the status, and the session is left as it was.
\<close>

theorem login_bad_body:
  assumes "\<forall>req. net w (length (sent w)) req = Fulfilled r"
  shows "(json_body r = None \<longrightarrow>
            fst (login e pw w) = Inl SyntaxError \<and> auth (snd (login e pw w)) = auth w) \<and>
         (json_body r = Some JNull \<longrightarrow>
            fst (login e pw w) = Inl (TypeError NotObjectCoercible) \<and> auth (snd (login e pw w)) = auth w)"
  using assms by (simp add: login_def api_eval Let_def)

theorem login_bad_body_witness:
  "fst (login (JStr ''a@b.c'') (JStr ''pw'')
        (test_world (\<lambda>n req. Fulfilled \<lparr>status = 200, json_body = None\<rparr>))) = Inl SyntaxError \<and>
   auth (snd (login (JStr ''a@b.c'') (JStr ''pw'')
        (test_world (\<lambda>n req. Fulfilled \<lparr>status = 200, json_body = None\<rparr>)))) = logged_out \<and>
   fst (login (JStr ''a@b.c'') (JStr ''pw'')
        (test_world (\<lambda>n req. Fulfilled \<lparr>status = 500, json_body = Some JNull\<rparr>)))
     = Inl (TypeError NotObjectCoercible)"
  using login_bad_body
    [of "test_world (\<lambda>n req. Fulfilled \<lparr>status = 200, json_body = None\<rparr>)"
        "\<lparr>status = 200, json_body = None\<rparr>" "JStr ''a@b.c''" "JStr ''pw''"]
    login_bad_body
    [of "test_world (\<lambda>n req. Fulfilled \<lparr>status = 500, json_body = Some JNull\<rparr>)"
        "\<lparr>status = 500, json_body = Some JNull\<rparr>" "JStr ''a@b.c''" "JStr ''pw''"]
  by (simp add: test_world_def)

section \<open>Image upload\<close>

text \<open>
  C11. When the signed-URL response carries a string \<open>url\<close> and the PUT to it settles,
  uploadImage returns the public URL \<open>images_url + ulid + ".png"\<close> of the generated
  file name, after exactly the signed-URL GET and the PUT. Neither response's status is
  looked at.
\<close>

theorem uploadImage_public_url:
  assumes "net w (length (sent w)) (upload_url_request w) = Fulfilled r"
    and "json_body r = Some (JObj ps)" and "map_of ps ''url'' = Some (JStr u)"
    and "net w (Suc (length (sent w))) (u, put_init img) = Fulfilled r2"
  shows "fst (uploadImage img w) = Inr (JStr (images_url @ ulid_gen w (ulid_count w) @ ''.png'')) \<and>
         new_requests w (snd (uploadImage img w)) = [upload_url_request w, (u, put_init img)]"
  using assms
  by (simp add: uploadImage_def upload_url_request_def put_init_def api_eval Let_def)

theorem uploadImage_public_url_witness:
  "fst (uploadImage ''IMG'' (test_world (\<lambda>n req. Fulfilled \<lparr>status = 403,
      json_body = Some (JObj [(''url'', JStr ''https://s3/put'')])\<rparr>)))
   = Inr (JStr ''https://final-project-web-dev.s3.amazonaws.com/images/01ARZ3NDEKTSV4RRFFQ69G5FAV.png'')"
  using uploadImage_public_url
    [of "test_world (\<lambda>n req. Fulfilled \<lparr>status = 403,
           json_body = Some (JObj [(''url'', JStr ''https://s3/put'')])\<rparr>)"
        "\<lparr>status = 403, json_body = Some (JObj [(''url'', JStr ''https://s3/put'')])\<rparr>"
        "[(''url'', JStr ''https://s3/put'')]" "''https://s3/put''" "''IMG''"
        "\<lparr>status = 403, json_body = Some (JObj [(''url'', JStr ''https://s3/put'')])\<rparr>"]
  by (simp add: test_world_def images_url_def)

text \<open>
  C12. When the PUT to the signed URL is rejected, uploadImage does not throw: it logs the
  error to the console and returns \<open>undefined\<close>.
\<close>

theorem uploadImage_put_rejected:
  assumes "net w (length (sent w)) (upload_url_request w) = Fulfilled r"
    and "json_body r = Some (JObj ps)" and "map_of ps ''url'' = Some (JStr u)"
    and "net w (Suc (length (sent w))) (u, put_init img) = Rejected"
  shows "fst (uploadImage img w) = Inr JUndefined \<and>
         console (snd (uploadImage img w)) = console w @ [LogError (TypeError NetworkFailure)]"
  using assms
  by (simp add: uploadImage_def upload_url_request_def put_init_def api_eval Let_def)


theorem uploadImage_put_rejected_witness:
  "fst (uploadImage ''IMG'' (test_world (\<lambda>n req. if n = 0 then Fulfilled \<lparr>status = 200,
      json_body = Some (JObj [(''url'', JStr ''https://s3/put'')])\<rparr> else Rejected))) = Inr JUndefined"
  using uploadImage_put_rejected
    [of "test_world (\<lambda>n req. if n = 0 then Fulfilled \<lparr>status = 200,
           json_body = Some (JObj [(''url'', JStr ''https://s3/put'')])\<rparr> else Rejected)"
        "\<lparr>status = 200, json_body = Some (JObj [(''url'', JStr ''https://s3/put'')])\<rparr>"
        "[(''url'', JStr ''https://s3/put'')]" "''https://s3/put''" "''IMG''"]
  by (simp add: test_world_def)

text \<open>
  C13. When the PUT of the image is rejected, createProduct still posts the product, and
  the posted JSON has no \<open>imageUrl\<close> member (the undefined value is dropped by
  JSON.stringify, also over an \<open>imageUrl\<close> the caller's object had).
\<close>

theorem createProduct_put_rejected:
  assumes "net w (length (sent w)) (upload_url_request w) = Fulfilled r"
    and "json_body r = Some (JObj ps)" and "map_of ps ''url'' = Some (JStr u)"
    and "net w (Suc (length (sent w))) (u, put_init img) = Rejected"
  shows "new_requests w (snd (createProduct p img w)) =
     [upload_url_request w, (u, put_init img),
      (base_url @ ''/products'',
       \<lparr>http_method = ''POST'', mode = Some ''cors'',
        headers = [(''Content-Type'', ''application/json''),
                   (''Authorization'', bearer (getCurrentToken (auth w)))],
        body = map_option TextBody
                 (json_stringify (JObj (filter (\<lambda>kv. fst kv \<noteq> ''imageUrl'') (obj_copy [] p))))\<rparr>)]"
proof -
  have up: "uploadImage img w =
    (Inr JUndefined, w\<lparr>ulid_count := Suc (ulid_count w),
                        sent := sent w @ [upload_url_request w, (u, put_init img)],
                        console := console w @ [LogError (TypeError NetworkFailure)]\<rparr>)"
    using assms by (rule uploadImage_put_rejected_run)
  have js: "json_stringify (JObj (product_payload p JUndefined)) =
            json_stringify (JObj (filter (\<lambda>kv. fst kv \<noteq> ''imageUrl'') (obj_copy [] p)))"
    by (simp add: json_stringify_def product_payload_def json_members_put_undefined)
  show ?thesis
    using up js
    by (simp add: createProduct_def api_eval Let_def split: fetch_result.split)
qed

theorem createProduct_put_rejected_witness:
  "body (snd (last (new_requests (test_world (\<lambda>n req. if n = 0 then Fulfilled \<lparr>status = 200,
        json_body = Some (JObj [(''url'', JStr ''https://s3/put'')])\<rparr> else Rejected))
     (snd (createProduct (JObj [(''name'', JStr ''mug''), (''imageUrl'', JStr ''old'')]) ''IMG''
       (test_world (\<lambda>n req. if n = 0 then Fulfilled \<lparr>status = 200,
        json_body = Some (JObj [(''url'', JStr ''https://s3/put'')])\<rparr> else Rejected))))))) =
   Some (TextBody ''{\"name\":\"mug\"}'')"
  using createProduct_put_rejected
    [of "test_world (\<lambda>n req. if n = 0 then Fulfilled \<lparr>status = 200,
           json_body = Some (JObj [(''url'', JStr ''https://s3/put'')])\<rparr> else Rejected)"
        "\<lparr>status = 200, json_body = Some (JObj [(''url'', JStr ''https://s3/put'')])\<rparr>"
        "[(''url'', JStr ''https://s3/put'')]" "''https://s3/put''" "''IMG''"
        "JObj [(''name'', JStr ''mug''), (''imageUrl'', JStr ''old'')]"]
  by (simp add: test_world_def js_eval)

end
