(* ===== verification/Client.thy ===== *)
theory Client
  imports ApiProps "HOL-Library.Sublist"
begin

text \<open>
  The client as a whole: the exported operations of \<open>src/lib/api.js\<close> as a datatype of
  calls, a step that runs one call to completion on the world (the caller catches what
  it throws and goes on), and the worlds reachable from a start world by any sequence of
  calls. On it: the frame of each call (the network is not changed, the request log
  only grows, every Authorization header a call sends is the bearer of the session
  token at the call), and the invariant that the session only holds the start token or
  a token the backend returned to a login request of the run.
\<close>

datatype api_call =
    CreateProduct jsval bytes
  | CreateOrder jsval
  | GetOrders
  | GetTopProducts
  | SearchProducts jsval jsval jsval jsval
  | DeleteProduct jsval
  | Register jsval
  | Login jsval jsval

fun call_world :: "api_call \<Rightarrow> world \<Rightarrow> world" where
  "call_world (CreateProduct p img) w = snd (createProduct p img w)"
| "call_world (CreateOrder v) w = snd (createOrder v w)"
| "call_world GetOrders w = snd (getOrders w)"
| "call_world GetTopProducts w = snd (getTopProducts w)"
| "call_world (SearchProducts n c mi ma) w = snd (searchProducts n c mi ma w)"
| "call_world (DeleteProduct p) w = snd (deleteProduct p w)"
| "call_world (Register v) w = snd (register v w)"
| "call_world (Login e pw) w = snd (login e pw w)"

definition run_calls :: "api_call list \<Rightarrow> world \<Rightarrow> world" where
  "run_calls cs w = fold call_world cs w"

inductive reachable :: "world \<Rightarrow> world \<Rightarrow> bool" for w0 :: world where
  start: "reachable w0 w0"
| call: "reachable w0 w \<Longrightarrow> reachable w0 (call_world c w)"

text \<open>Every Authorization header among the requests is the bearer of \<open>t\<close>.\<close>

definition headers_bearer :: "jsval \<Rightarrow> request list \<Rightarrow> bool" where
  "headers_bearer t rs = (\<forall>req \<in> set rs. \<forall>h \<in> set (authorization req). h = bearer t)"

text \<open>What every call does to the world: the network is untouched, the request log is
  extended, and the new requests carry no Authorization header but the bearer of the
  session token at the call.\<close>

definition call_effect :: "world \<Rightarrow> world \<Rightarrow> bool" where
  "call_effect w w' =
     (net w' = net w \<and> prefix (sent w) (sent w') \<and>
      headers_bearer (getCurrentToken (auth w)) (new_requests w w'))"

text \<open>A token the backend issued in the run from \<open>w0\<close> to \<open>w\<close>: the token of the start
  session, or the \<open>token\<close> of the body of a response to a request to \<open>/login\<close> sent in
  the run (at a position of the request log past the start world's log).\<close>

definition issued :: "world \<Rightarrow> world \<Rightarrow> jsval \<Rightarrow> bool" where
  "issued w0 w t =
     (t = getCurrentToken (auth w0) \<or>
      (\<exists>i. length (sent w0) \<le> i \<and> i < length (sent w) \<and> fst (sent w ! i) = base_url @ ''/login'' \<and>
         (\<exists>r v. net w0 i (sent w ! i) = Fulfilled r \<and> json_body r = Some v \<and>
                get_prop v ''token'' = Inr t)))"

text \<open>What the response to the login request does to the session (lines 132 to 136):
  the session is replaced by the \<open>token\<close> and \<open>isAdmin\<close>
  of the body when the body is JSON and not \<open>null\<close> or \<open>undefined\<close>, whatever the
  status; otherwise login throws before \<open>auth.logIn\<close>.\<close>

fun login_session :: "fetch_result \<Rightarrow> session \<Rightarrow> session" where
  "login_session Rejected s = s"
| "login_session (Fulfilled r) s =
     (case json_body r of
        None \<Rightarrow> s
      | Some v \<Rightarrow> (case (get_prop v ''token'', get_prop v ''isAdmin'') of
                     (Inr t, Inr a) \<Rightarrow> logIn t a s
                   | _ \<Rightarrow> s))"

text \<open>Every Authorization header among the requests is the bearer of an issued token.\<close>

definition headers_issued :: "world \<Rightarrow> world \<Rightarrow> request list \<Rightarrow> bool" where
  "headers_issued w0 w rs =
     (\<forall>req \<in> set rs. \<forall>h \<in> set (authorization req). \<exists>t. h = bearer t \<and> issued w0 w t)"

section \<open>Frame of each call\<close>

lemma createOrder_effect: "call_effect w (snd (createOrder v w))"
  by (simp add: createOrder_def call_effect_def headers_bearer_def api_eval Let_def
           split: fetch_result.split)

lemma getOrders_effect: "call_effect w (snd (getOrders w))"
  by (simp add: getOrders_def call_effect_def headers_bearer_def api_eval Let_def
           split: fetch_result.split option.split)

lemma getTopProducts_effect: "call_effect w (snd (getTopProducts w))"
  by (simp add: getTopProducts_def call_effect_def headers_bearer_def api_eval Let_def
           split: fetch_result.split option.split)

lemma searchProducts_effect: "call_effect w (snd (searchProducts n c mi ma w))"
  by (simp add: searchProducts_def call_effect_def headers_bearer_def api_eval Let_def
           split: fetch_result.split option.split)

lemma deleteProduct_effect: "call_effect w (snd (deleteProduct p w))"
  by (simp add: deleteProduct_def call_effect_def headers_bearer_def api_eval Let_def
           split: fetch_result.split)

lemma register_effect: "call_effect w (snd (register v w))"
  by (simp add: register_def call_effect_def headers_bearer_def api_eval Let_def
           split: fetch_result.split)

lemma login_effect: "call_effect w (snd (login e pw w))"
  by (simp add: login_def call_effect_def headers_bearer_def api_eval Let_def
           split: fetch_result.split option.split sum.split)

lemma uploadImage_effect: "call_effect w (snd (uploadImage img w)) \<and> auth (snd (uploadImage img w)) = auth w"
  by (simp add: uploadImage_def call_effect_def headers_bearer_def api_eval Let_def
           split: fetch_result.split option.split sum.split)

lemma new_requests_trans:
  "prefix (sent w) (sent w1) \<Longrightarrow> prefix (sent w1) (sent w2) \<Longrightarrow>
   new_requests w w2 = new_requests w w1 @ new_requests w1 w2"
  by (auto simp add: new_requests_def prefix_def)

lemma call_effect_trans:
  assumes "call_effect w w1" and "auth w1 = auth w" and "call_effect w1 w2"
  shows "call_effect w w2"
proof -
  from assms have p1: "prefix (sent w) (sent w1)" and p2: "prefix (sent w1) (sent w2)"
    by (simp_all add: call_effect_def)
  then have "prefix (sent w) (sent w2)" by (rule prefix_order.trans)
  with assms show ?thesis
    by (auto simp add: call_effect_def headers_bearer_def new_requests_trans [OF p1 p2])
qed

lemma createProduct_effect: "call_effect w (snd (createProduct p img w))"
proof (cases "uploadImage img w")
  case (Pair r w1)
  with uploadImage_effect [of w img] have e1: "call_effect w w1" and a1: "auth w1 = auth w"
    by simp_all
  show ?thesis
  proof (cases r)
    case (Inl e)
    with Pair e1 show ?thesis by (simp add: createProduct_def js_bind_def)
  next
    case (Inr iu)
    with Pair have "call_effect w1 (snd (createProduct p img w))"
      by (simp add: createProduct_def call_effect_def headers_bearer_def api_eval Let_def
               split: fetch_result.split)
    with e1 a1 show ?thesis by (rule call_effect_trans)
  qed
qed

lemma login_auth:
  "auth (snd (login e pw w)) = login_session (net w (length (sent w)) (login_request e pw)) (auth w)"
  by (simp add: login_def login_request_def api_eval Let_def
           split: fetch_result.split option.split sum.split)

lemma createProduct_auth: "auth (snd (createProduct p img w)) = auth w"
proof (cases "uploadImage img w")
  case (Pair r w1)
  with uploadImage_effect [of w img] have a1: "auth w1 = auth w" by simp
  with Pair show ?thesis
    by (cases r) (simp_all add: createProduct_def api_eval Let_def split: fetch_result.split)
qed

lemma auth_frames:
  "auth (snd (createOrder v w)) = auth w"
  "auth (snd (getOrders w)) = auth w"
  "auth (snd (getTopProducts w)) = auth w"
  "auth (snd (searchProducts n c mi ma w)) = auth w"
  "auth (snd (deleteProduct p w)) = auth w"
  "auth (snd (register v w)) = auth w"
  by (simp_all add: createOrder_def getOrders_def getTopProducts_def searchProducts_def
      deleteProduct_def register_def api_eval Let_def split: fetch_result.split option.split)

lemmas call_effects =
  createProduct_effect createOrder_effect getOrders_effect getTopProducts_effect
  searchProducts_effect deleteProduct_effect register_effect login_effect

lemma call_world_effect: "call_effect w (call_world c w)"
  by (cases c) (simp_all add: call_effects)

lemma issued_mono:
  assumes "prefix (sent w) (sent w')" and "issued w0 w t"
  shows "issued w0 w' t"
proof -
  from assms(1) obtain zs where zs: "sent w' = sent w @ zs" by (auto simp add: prefix_def)
  with assms(2) show ?thesis
    by (auto simp add: issued_def nth_append)
qed

lemma issued_login:
  assumes "net w = net w0" and "issued w0 w (getCurrentToken (auth w))"
    and "length (sent w0) \<le> length (sent w)"
  shows "issued w0 (snd (login e pw w)) (getCurrentToken (auth (snd (login e pw w))))"
proof -
  let ?w' = "snd (login e pw w)" and ?res = "net w (length (sent w)) (login_request e pw)"
  have s: "sent ?w' = sent w @ [login_request e pw]" by (rule login_sent)
  then have p: "prefix (sent w) (sent ?w')" by simp
  have a: "auth ?w' = login_session ?res (auth w)" by (rule login_auth)
  show ?thesis
  proof (cases "auth ?w' = auth w")
    case True
    with issued_mono [OF p assms(2)] show ?thesis by simp
  next
    case False
    then obtain r v t a' where r: "?res = Fulfilled r" and v: "json_body r = Some v"
      and t: "get_prop v ''token'' = Inr t" and "auth ?w' = logIn t a' (auth w)"
      using a by (cases ?res) (auto split: option.splits sum.splits)
    then have "getCurrentToken (auth ?w') = t" by simp
    moreover have "fst (sent ?w' ! length (sent w)) = base_url @ ''/login''"
      and "sent ?w' ! length (sent w) = login_request e pw"
      using s by (simp_all add: login_request_def)
    ultimately show ?thesis
      using s r v t assms(1,3) unfolding issued_def by (intro disjI2 exI [of _ "length (sent w)"]) auto
  qed
qed

lemma call_world_token:
  assumes "net w = net w0" and "issued w0 w (getCurrentToken (auth w))"
    and "length (sent w0) \<le> length (sent w)"
  shows "issued w0 (call_world c w) (getCurrentToken (auth (call_world c w)))"
proof -
  have "prefix (sent w) (sent (call_world c w))"
    using call_world_effect [of w c] by (simp add: call_effect_def)
  from issued_mono [OF this assms(2)]
  have i: "issued w0 (call_world c w) (getCurrentToken (auth w))" .
  show ?thesis
  proof (cases c)
    case (Login e pw)
    with assms show ?thesis by (simp add: issued_login)
  qed (use i in \<open>simp_all add: createProduct_auth auth_frames\<close>)
qed

lemma run_invariant:
  assumes "reachable w0 w"
  shows "net w = net w0 \<and> prefix (sent w0) (sent w) \<and>
         issued w0 w (getCurrentToken (auth w)) \<and> headers_issued w0 w (new_requests w0 w)"
  using assms
proof (induction rule: reachable.induct)
  case start
  then show ?case by (simp add: issued_def headers_issued_def new_requests_def)
next
  case (call w c)
  let ?w' = "call_world c w"
  have e: "call_effect w ?w'" by (rule call_world_effect)
  then have p: "prefix (sent w) (sent ?w')" and n: "net ?w' = net w"
    by (simp_all add: call_effect_def)
  from call.IH p have p0: "prefix (sent w0) (sent ?w')" by (blast intro: prefix_order.trans)
  have old: "headers_issued w0 ?w' (new_requests w0 w)"
    using call.IH issued_mono [OF p] by (fastforce simp add: headers_issued_def)
  have new: "headers_issued w0 ?w' (new_requests w ?w')"
    using e call.IH issued_mono [OF p]
    by (fastforce simp add: headers_issued_def call_effect_def headers_bearer_def)
  have "headers_issued w0 ?w' (new_requests w0 ?w')"
    using old new new_requests_trans [of w0 w ?w'] call.IH p
    by (simp add: headers_issued_def) blast
  moreover from call.IH have "length (sent w0) \<le> length (sent w)"
    by (simp add: prefix_length_le)
  ultimately show ?case using call.IH n p0 call_world_token [of w w0 c] by simp
qed

lemma reachable_run_calls: "reachable w0 (run_calls cs w0)"
proof (induction cs rule: rev_induct)
  case Nil
  then show ?case by (simp add: run_calls_def reachable.start)
next
  case (snoc c cs)
  then show ?case by (simp add: run_calls_def reachable.call)
qed

section \<open>The session across calls\<close>

text \<open>
  C14. The session is changed by login alone, and by login exactly as the abstract
  \<open>login_session\<close> says: the token and flag of the response body are stored when the
  body is a JSON value other than \<open>null\<close>, whatever the response status; a rejected
  fetch or a non-JSON body leaves the session as it was. Every other call leaves it as
  it was.
\<close>

theorem session_refinement:
  "auth (call_world c w) =
     (case c of Login e pw \<Rightarrow> login_session (net w (length (sent w)) (login_request e pw)) (auth w)
              | _ \<Rightarrow> auth w)"
  by (cases c) (simp_all add: createProduct_auth auth_frames login_auth)

text \<open>
  C15. In every world reachable by any sequence of calls, the session holds either the
  token of the start session or the \<open>token\<close> the backend returned in the body of the
  response to a request to \<open>/login\<close> that the run sent.
\<close>

theorem token_provenance:
  "reachable w0 w \<Longrightarrow> issued w0 w (getCurrentToken (auth w))"
  by (simp add: run_invariant)

theorem token_provenance_witness:
  "getCurrentToken (auth (run_calls [GetOrders, Login (JStr ''a@b.c'') (JStr ''pw''), GetOrders]
      (test_world (\<lambda>n req. Fulfilled \<lparr>status = 200,
         json_body = Some (JObj [(''token'', JStr ''T1''), (''isAdmin'', JBool False)])\<rparr>)))) = JStr ''T1'' \<and>
   issued (test_world (\<lambda>n req. Fulfilled \<lparr>status = 200,
         json_body = Some (JObj [(''token'', JStr ''T1''), (''isAdmin'', JBool False)])\<rparr>))
     (run_calls [GetOrders, Login (JStr ''a@b.c'') (JStr ''pw''), GetOrders]
      (test_world (\<lambda>n req. Fulfilled \<lparr>status = 200,
         json_body = Some (JObj [(''token'', JStr ''T1''), (''isAdmin'', JBool False)])\<rparr>)))
     (JStr ''T1'')"
proof -
  let ?w0 = "test_world (\<lambda>n req. Fulfilled \<lparr>status = 200,
         json_body = Some (JObj [(''token'', JStr ''T1''), (''isAdmin'', JBool False)])\<rparr>)"
  let ?cs = "[GetOrders, Login (JStr ''a@b.c'') (JStr ''pw''), GetOrders]"
  have t: "getCurrentToken (auth (run_calls ?cs ?w0)) = JStr ''T1''"
    by (simp add: run_calls_def getOrders_def login_def test_world_def api_eval Let_def)
  have "issued ?w0 (run_calls ?cs ?w0) (getCurrentToken (auth (run_calls ?cs ?w0)))"
    by (rule token_provenance [OF reachable_run_calls])
  with t show ?thesis by simp
qed

text \<open>
  C16. Along any sequence of calls, every Authorization header the client sends is
  \<open>"Bearer " + t\<close> for a token \<open>t\<close> issued as in C15: the client never sends a token
  it did not receive from the session it started with or from a login response.
\<close>

theorem authorization_provenance:
  "reachable w0 w \<Longrightarrow>
   \<forall>req \<in> set (new_requests w0 w). \<forall>h \<in> set (authorization req). \<exists>t. h = bearer t \<and> issued w0 w t"
  using run_invariant [of w0 w] by (simp add: headers_issued_def)

theorem authorization_provenance_witness:
  "map authorization (new_requests (test_world (\<lambda>n req. Fulfilled \<lparr>status = 200,
         json_body = Some (JObj [(''token'', JStr ''T1''), (''isAdmin'', JBool False)])\<rparr>))
     (run_calls [GetOrders, Login (JStr ''a@b.c'') (JStr ''pw''), GetOrders]
      (test_world (\<lambda>n req. Fulfilled \<lparr>status = 200,
         json_body = Some (JObj [(''token'', JStr ''T1''), (''isAdmin'', JBool False)])\<rparr>))))
   = [[''Bearer null''], [], [''Bearer T1'']] \<and>
   (\<exists>t. ''Bearer T1'' = bearer t \<and>
        issued (test_world (\<lambda>n req. Fulfilled \<lparr>status = 200,
         json_body = Some (JObj [(''token'', JStr ''T1''), (''isAdmin'', JBool False)])\<rparr>))
          (run_calls [GetOrders, Login (JStr ''a@b.c'') (JStr ''pw''), GetOrders]
           (test_world (\<lambda>n req. Fulfilled \<lparr>status = 200,
              json_body = Some (JObj [(''token'', JStr ''T1''), (''isAdmin'', JBool False)])\<rparr>))) t)"
proof -
  let ?w0 = "test_world (\<lambda>n req. Fulfilled \<lparr>status = 200,
         json_body = Some (JObj [(''token'', JStr ''T1''), (''isAdmin'', JBool False)])\<rparr>)"
  let ?cs = "[GetOrders, Login (JStr ''a@b.c'') (JStr ''pw''), GetOrders]"
  have hs: "map authorization (new_requests ?w0 (run_calls ?cs ?w0)) = [[''Bearer null''], [], [''Bearer T1'']]"
    by (simp add: run_calls_def new_requests_def getOrders_def login_def test_world_def
          api_eval Let_def bearer_def)
  have ne: "new_requests ?w0 (run_calls ?cs ?w0) \<noteq> []"
    using hs by (intro notI) simp
  have "authorization (last (new_requests ?w0 (run_calls ?cs ?w0))) = [''Bearer T1'']"
    using hs by (simp add: last_map [OF ne, symmetric])
  moreover have "last (new_requests ?w0 (run_calls ?cs ?w0)) \<in> set (new_requests ?w0 (run_calls ?cs ?w0))"
    using ne by (rule last_in_set)
  ultimately have "\<exists>t. ''Bearer T1'' = bearer t \<and> issued ?w0 (run_calls ?cs ?w0) t"
    using authorization_provenance [OF reachable_run_calls [of ?w0 ?cs]] by (metis list.set_intros(1))
  with hs show ?thesis by simp
qed

end
