(* ===== verification/Spec2Isabelle.thy ===== *)
theory Spec2Isabelle
  imports Client
begin

text \<open>
  A verification development of the storefront client \<open>src/lib/api.js\<close>, the one source
  file of the repository: eight exported operations (\<open>createProduct\<close>,
  \<open>createOrder\<close>, \<open>getOrders\<close>, \<open>getTopProducts\<close>, \<open>searchProducts\<close>,
  \<open>deleteProduct\<close>, \<open>register\<close>, \<open>login\<close>) and the internal two-phase upload
  \<open>uploadImage\<close>. Each operation builds an HTTP request, reads the bearer token from the
  session collaborator \<open>auth\<close>, sends the request with \<open>fetch\<close> and turns the response
  into a result or a thrown error; \<open>createProduct\<close> first runs \<open>uploadImage\<close>, and
  \<open>login\<close> writes the session.

  \<^bold>\<open>Theories.\<close>
  \<^item> \<open>Prelude\<close>: evaluation collections \<open>js_eval\<close> and \<open>api_eval\<close>, digits in a radix
    with their value and inverse lemmas, splitting and joining lists at a separator.
  \<^item> \<open>JsNumber\<close>: JavaScript numbers as exact normalised decimals: \<open>StringToNumber\<close>
    (the \<open>Number(x)\<close> of the filters), multiplication, \<open>Number::toString\<close>.
  \<^item> \<open>JsValue\<close>: JavaScript values, \<open>ToBoolean\<close> (\<open>!!x\<close>), \<open>ToString\<close>,
    \<open>ToNumber\<close>; objects as property lists in \<open>[[OwnPropertyKeys]]\<close> order with
    \<open>CreateDataProperty\<close> (\<open>obj_put\<close>) and object spread (\<open>obj_copy\<close>); property
    reads that throw on \<open>null\<close>; \<open>JSON.stringify\<close>. Lemmas: lookup after \<open>obj_put\<close>, the
    key-order invariant \<open>obj_wf\<close> kept by every \<open>obj_put\<close>, members set to
    \<open>undefined\<close> vanish from the JSON text.
  \<^item> \<open>UrlEncode\<close>: \<open>URLSearchParams.toString()\<close> (form-urlencoded serializer), the
    \<open>url.search\<close> setter, and the standard's parser; the parser inverts the
    serializer and the setter keeps a serialized query as it is.
  \<^item> \<open>Auth\<close>: the session collaborator, modelled from the specification (its source
    \<open>./auth\<close> is not in the repository).
  \<^item> \<open>Http\<close>: the effect layer. A world record holds the session, the clock, the ULID
    source, the console and a network oracle; \<open>fetch\<close> records each request and takes
    its outcome from the oracle; \<open>js_bind\<close>, \<open>js_throw\<close>, \<open>js_catch\<close> are
    \<open>await\<close>, \<open>throw\<close>, \<open>try/catch\<close>.
  \<^item> \<open>Api\<close>: one definition per function of \<open>api.js\<close>, statement by statement.
  \<^item> \<open>ApiProps\<close>: the properties of single operations (claims C1 to C5, C7 to C13,
    C17 to C23): the search filters, their round trip through the URL query and the exact
    URL searchProducts requests (C1 to C3), the Authorization header of each authorized
    request and its absence from the others (C4, C19), the exact requests of createProduct
    on every outcome of its fetches (C5) and of the operations with fixed URLs (C17), the
    unencoded product id of deleteProduct (C20), the order timestamp and the members of
    the product payload (C7, C21), the fixed error messages and the TypeError of a network
    failure (C8, C18), the results on 2xx responses with and without a JSON body (C22,
    C23), the login quirks (C9, C10), the upload helper on its success and failure paths
    and what createProduct posts after a failed upload (C11 to C13). A witness runs a
    claim on a world built by \<open>test_world\<close>.
  \<^item> \<open>Client\<close>: the calls as a datatype \<open>api_call\<close> with the step \<open>call_world\<close> (the
    caller catches what a call throws and goes on), runs of calls \<open>run_calls\<close> and the
    inductive \<open>reachable\<close>. Per-operation frame lemmas (\<open>call_effect\<close>: the network is
    untouched, the request log only grows, every new Authorization header is the bearer
    of the session token at the call) give, by rule induction on \<open>reachable\<close>, the
    invariants C15 and C16: the session, and every bearer sent, only ever carries the
    start token or a token a response to \<open>/login\<close> returned. C14 is the refinement of
    the session: \<open>login_session\<close> is the whole effect of each call on it.
  \<^item> this theory: C6, a login followed by an authorized call.

  \<^bold>\<open>Model choices.\<close> There is no fuel and no unbounded loop: every operation is a
  fixed sequence of at most three fetches, so every definition is total and a call
  always returns (a value or a thrown error) in the model. The network is an oracle
  indexed by the position of the request in the log, so a claim about a failure states
  which request fails. Findings of the modelling are listed in \<open>PROJECT.json\<close>; the
  main ones are proved as claims: getOrders reports \<open>"Could not create order"\<close> (C8),
  login writes the session before its status check (C9, C14), a non-JSON login body
  escapes the fixed message (C10), uploadImage ignores both response statuses (C11) and
  returns \<open>undefined\<close> when the PUT throws (C12), after which createProduct posts the
  product without \<open>imageUrl\<close> (C13).

  \<^bold>\<open>Not modelled.\<close> The binary64 rounding of \<open>Number(x) * 100\<close> (the model multiplies
  exact decimals), non-ASCII white space and UTF-16 code units (strings are UTF-8 bytes),
  URL parsing of the strings given to \<open>fetch\<close> (the request records the string),
  requests that never settle, the JSON parser of response bodies (a response carries its
  parsed body), the \<open>ulid\<close> library (an oracle of identifiers), the UI, the backend and
  the object store.
\<close>

section \<open>Login and the authorized calls that follow\<close>

text \<open>
  C6. The session is the single source of the bearer token: after a login whose response
  carries the token \<open>t\<close>, the next authorized call (getOrders) sends
  \<open>"Bearer " + t\<close>, whatever token the session held before the login.
\<close>

theorem login_token_reaches_next_call:
  assumes "\<forall>req. net w (length (sent w)) req = Fulfilled r"
    and "json_body r = Some (JObj ps)" and "map_of ps ''token'' = Some t"
  shows "authorization (last (sent (snd (getOrders (snd (login e pw w)))))) = [bearer t]"
  using assms
  by (simp add: login_def getOrders_def api_eval Let_def split: fetch_result.split option.split)

theorem login_token_reaches_next_call_witness:
  "authorization (last (sent (snd (getOrders (snd (login (JStr ''a@b.c'') (JStr ''pw'')
      (test_world (\<lambda>n req. Fulfilled \<lparr>status = 200,
         json_body = Some (JObj [(''token'', JStr ''T1''), (''isAdmin'', JBool False)])\<rparr>)))))))) =
   [''Bearer T1'']"
  using login_token_reaches_next_call
    [of "test_world (\<lambda>n req. Fulfilled \<lparr>status = 200,
         json_body = Some (JObj [(''token'', JStr ''T1''), (''isAdmin'', JBool False)])\<rparr>)"
        "\<lparr>status = 200, json_body = Some (JObj [(''token'', JStr ''T1''), (''isAdmin'', JBool False)])\<rparr>"
        "[(''token'', JStr ''T1''), (''isAdmin'', JBool False)]" "JStr ''T1''"
        "JStr ''a@b.c''" "JStr ''pw''"]
  by (simp add: test_world_def bearer_def)

end
